theory Spec2Isabelle
  imports Complex_Main "HOL-Library.AList"
begin

section \<open>The Python builtins the editor relies on\<close>

text \<open>
  The editor of \<^verbatim>\<open>main.py\<close> works on the whitespace-separated tokens of a command
  line. Strings are byte strings here; the case conversions and the whitespace test
  are the ASCII part of Python's. Exceptions are values.
\<close>

datatype reason = NonNumeric | NonPositive | NonIntegerCount | WrongArity | TooFewSides

datatype py_exception =
    ValueError
  | IndexError
  | ValidationError string reason
  | SystemExit int

text \<open>\<^verbatim>\<open>except Exception\<close> catches everything but \<^verbatim>\<open>SystemExit\<close>.\<close>

fun is_Exception :: "py_exception \<Rightarrow> bool" where
  "is_Exception (SystemExit c) = False"
| "is_Exception e = True"

definition isspace :: "char \<Rightarrow> bool" where
  "isspace c = (c \<in> set [CHR '' '', CHR 0x09, CHR 0x0A, CHR 0x0B, CHR 0x0C, CHR 0x0D,
                           CHR 0x1C, CHR 0x1D, CHR 0x1E, CHR 0x1F])"

definition isdigit :: "char \<Rightarrow> bool" where
  "isdigit c = (c \<in> set ''0123456789'')"

definition digit_val :: "char \<Rightarrow> nat" where
  "digit_val c = of_char c - 48"

definition char_lower :: "char \<Rightarrow> char" where
  "char_lower c =
     (case map_of (zip ''ABCDEFGHIJKLMNOPQRSTUVWXYZ'' ''abcdefghijklmnopqrstuvwxyz'') c of
        Some d \<Rightarrow> d
      | None \<Rightarrow> c)"

definition char_upper :: "char \<Rightarrow> char" where
  "char_upper c =
     (case map_of (zip ''abcdefghijklmnopqrstuvwxyz'' ''ABCDEFGHIJKLMNOPQRSTUVWXYZ'') c of
        Some d \<Rightarrow> d
      | None \<Rightarrow> c)"

text \<open>\<^verbatim>\<open>str.lower()\<close> and \<^verbatim>\<open>str.capitalize()\<close>.\<close>

definition lower :: "string \<Rightarrow> string" where
  "lower s = map char_lower s"

fun capitalize :: "string \<Rightarrow> string" where
  "capitalize [] = []"
| "capitalize (c # cs) = char_upper c # lower cs"

text \<open>\<^verbatim>\<open>str.strip()\<close> and \<^verbatim>\<open>str.split()\<close> with no separator.\<close>

definition strip :: "string \<Rightarrow> string" where
  "strip s = rev (dropWhile isspace (rev (dropWhile isspace s)))"

fun split_from :: "string \<Rightarrow> string \<Rightarrow> string list" where
  "split_from w [] = (if w = [] then [] else [w])"
| "split_from w (c # cs) =
     (if isspace c then (if w = [] then split_from [] cs else w # split_from [] cs)
      else split_from (w @ [c]) cs)"

definition split :: "string \<Rightarrow> string list" where
  "split s = split_from [] s"

text \<open>\<^verbatim>\<open>str(n)\<close> of an integer: its decimal digits, with a minus sign when negative.\<close>

fun str_nat :: "nat \<Rightarrow> string" where
  "str_nat n =
     (if n < 10 then [''0123456789'' ! n]
      else str_nat (n div 10) @ [''0123456789'' ! (n mod 10)])"

definition str_int :: "int \<Rightarrow> string" where
  "str_int i = (if i < 0 then CHR ''-'' # str_nat (nat (- i)) else str_nat (nat i))"

subsection \<open>Numbers and their parsing\<close>

text \<open>
  A Python number handed to a shape constructor is an \<^verbatim>\<open>int\<close> or a \<^verbatim>\<open>float\<close>.
  A float is modelled by the exact value of its decimal literal, or one of the three
  non-finite values; rounding to binary64 is not modelled.
\<close>

datatype pyfloat = Fin real | PosInf | NegInf | NaN

datatype pynum = PyInt int | PyFloat pyfloat

text \<open>A run of digits in which single underscores may separate digits.\<close>

fun digitpart :: "string \<Rightarrow> bool" where
  "digitpart [] = False"
| "digitpart [c] = isdigit c"
| "digitpart (c # d # cs) =
     (isdigit c \<and> (if d = CHR ''_'' then digitpart cs else digitpart (d # cs)))"

definition digits_nat :: "string \<Rightarrow> nat" where
  "digits_nat s = foldl (\<lambda>n c. 10 * n + digit_val c) 0 (filter isdigit s)"

definition sign_split :: "string \<Rightarrow> bool \<times> string" where
  "sign_split t =
     (case t of
        [] \<Rightarrow> (False, [])
      | c # r \<Rightarrow> if c = CHR ''-'' then (True, r) else if c = CHR ''+'' then (False, r)
                 else (False, t))"

definition signed_digits :: "string \<Rightarrow> int option" where
  "signed_digits t =
     (case sign_split t of (neg, u) \<Rightarrow>
        if digitpart u then Some (if neg then - int (digits_nat u) else int (digits_nat u))
        else None)"

text \<open>\<^verbatim>\<open>int(s)\<close> for a string, in base ten: \<^verbatim>\<open>ValueError\<close> unless the stripped
  string is an optionally signed run of digits. The digits are the ASCII ones, and the
  limit that recent interpreters put on the number of digits is not modelled.\<close>

definition int_of_str :: "string \<Rightarrow> py_exception + int" where
  "int_of_str s = (case signed_digits (strip s) of None \<Rightarrow> Inl ValueError | Some i \<Rightarrow> Inr i)"

text \<open>The mantissa \<^verbatim>\<open>digits [. [digits]]\<close> or \<^verbatim>\<open>. digits\<close> of a decimal literal.\<close>

definition mantissa :: "string \<Rightarrow> real option" where
  "mantissa m =
     (let ip = takeWhile (\<lambda>c. c \<noteq> CHR ''.'') m; fr = dropWhile (\<lambda>c. c \<noteq> CHR ''.'') m
      in if fr = [] then (if digitpart ip then Some (real (digits_nat ip)) else None)
         else let fp = tl fr
              in if (ip = [] \<or> digitpart ip) \<and> (fp = [] \<or> digitpart fp) \<and> \<not> (ip = [] \<and> fp = [])
                 then Some (real (digits_nat ip)
                            + real (digits_nat fp) / 10 ^ length (filter isdigit fp))
                 else None)"

definition scale10 :: "real \<Rightarrow> int \<Rightarrow> real" where
  "scale10 r e = (if 0 \<le> e then r * 10 ^ nat e else r / 10 ^ nat (- e))"

definition decimal :: "string \<Rightarrow> real option" where
  "decimal u =
     (let m = takeWhile (\<lambda>c. c \<noteq> CHR ''e'' \<and> c \<noteq> CHR ''E'') u;
          ex = dropWhile (\<lambda>c. c \<noteq> CHR ''e'' \<and> c \<noteq> CHR ''E'') u
      in case mantissa m of
           None \<Rightarrow> None
         | Some r \<Rightarrow>
             if ex = [] then Some r
             else (case signed_digits (tl ex) of None \<Rightarrow> None | Some e \<Rightarrow> Some (scale10 r e)))"

text \<open>\<^verbatim>\<open>float(s)\<close> for a string: a decimal literal, or \<^verbatim>\<open>inf\<close>, \<^verbatim>\<open>infinity\<close>,
  \<^verbatim>\<open>nan\<close> in any case, each optionally signed.\<close>

definition float_of_str :: "string \<Rightarrow> py_exception + pyfloat" where
  "float_of_str s =
     (case sign_split (strip s) of (neg, u) \<Rightarrow>
        if lower u = ''inf'' \<or> lower u = ''infinity'' then Inr (if neg then NegInf else PosInf)
        else if lower u = ''nan'' then Inr NaN
        else (case decimal u of
                None \<Rightarrow> Inl ValueError
              | Some r \<Rightarrow> Inr (Fin (if neg then - r else r))))"

section \<open>The shape classes\<close>

text \<open>
  Modelled from the spec: the modules \<^verbatim>\<open>shape\<close>, \<^verbatim>\<open>shapes_2d\<close> and
  \<^verbatim>\<open>shapes_3d\<close> that \<^verbatim>\<open>main.py\<close> imports. A class is its symbolic name and its
  ordered parameters, each a coordinate (any finite number), a size (finite and
  strictly positive) or a side count (an integer, at least 3). Construction validates
  every parameter in order before the instance exists, and fails with
  \<^verbatim>\<open>ValidationError\<close> naming the parameter and the reason. The identifier is left
  unset: the editor assigns it.
\<close>

datatype param_kind = Coordinate | Size | SideCount

record shape_class =
  cls_name :: string
  cls_params :: "(string \<times> param_kind) list"

definition Point :: shape_class where
  "Point = \<lparr>cls_name = ''Point'', cls_params = [(''x'', Coordinate), (''y'', Coordinate)]\<rparr>"

definition Line :: shape_class where
  "Line = \<lparr>cls_name = ''Line'',
            cls_params = [(''x1'', Coordinate), (''y1'', Coordinate),
                          (''x2'', Coordinate), (''y2'', Coordinate)]\<rparr>"

definition Circle :: shape_class where
  "Circle = \<lparr>cls_name = ''Circle'',
              cls_params = [(''center_x'', Coordinate), (''center_y'', Coordinate),
                            (''radius'', Size)]\<rparr>"

definition Square :: shape_class where
  "Square = \<lparr>cls_name = ''Square'',
              cls_params = [(''x'', Coordinate), (''y'', Coordinate), (''side_length'', Size)]\<rparr>"

definition Rectangle :: shape_class where
  "Rectangle = \<lparr>cls_name = ''Rectangle'',
                 cls_params = [(''x'', Coordinate), (''y'', Coordinate),
                               (''width'', Size), (''height'', Size)]\<rparr>"

definition RegularPolygon :: shape_class where
  "RegularPolygon = \<lparr>cls_name = ''RegularPolygon'',
                      cls_params = [(''center_x'', Coordinate), (''center_y'', Coordinate),
                                    (''num_sides'', SideCount), (''side_length'', Size)]\<rparr>"

definition Parallelepiped :: shape_class where
  "Parallelepiped = \<lparr>cls_name = ''Parallelepiped'',
                      cls_params = [(''x'', Coordinate), (''y'', Coordinate), (''z'', Coordinate),
                                    (''width'', Size), (''height'', Size), (''depth'', Size)]\<rparr>"

definition Tetrahedron :: shape_class where
  "Tetrahedron = \<lparr>cls_name = ''Tetrahedron'',
                   cls_params = [(''x'', Coordinate), (''y'', Coordinate), (''z'', Coordinate),
                                 (''edge_length'', Size)]\<rparr>"

definition shape_classes :: "shape_class list" where
  "shape_classes =
     [Point, Line, Circle, Square, Rectangle, RegularPolygon, Parallelepiped, Tetrahedron]"

text \<open>A validated attribute: the real value of a coordinate or size, or the side count.\<close>

datatype attr = RealAttr real | IntAttr int

record shape =
  ident :: "int option"
  name :: string
  type_name :: string
  attrs :: "(string \<times> attr) list"

fun finite_value :: "pynum \<Rightarrow> real option" where
  "finite_value (PyInt n) = Some (real_of_int n)"
| "finite_value (PyFloat (Fin r)) = Some r"
| "finite_value (PyFloat f) = None"

text \<open>A size that is zero or negative (minus infinity included).\<close>

fun nonpositive :: "pynum \<Rightarrow> bool" where
  "nonpositive (PyInt n) = (n \<le> 0)"
| "nonpositive (PyFloat (Fin r)) = (r \<le> 0)"
| "nonpositive (PyFloat NegInf) = True"
| "nonpositive (PyFloat f) = False"

fun validate_param :: "string \<Rightarrow> param_kind \<Rightarrow> pynum \<Rightarrow> py_exception + attr" where
  "validate_param p Coordinate v =
     (case finite_value v of
        None \<Rightarrow> Inl (ValidationError p NonNumeric)
      | Some r \<Rightarrow> Inr (RealAttr r))"
| "validate_param p Size v =
     (if nonpositive v then Inl (ValidationError p NonPositive)
      else case finite_value v of
             None \<Rightarrow> Inl (ValidationError p NonNumeric)
           | Some r \<Rightarrow> Inr (RealAttr r))"
| "validate_param p SideCount v =
     (case v of
        PyFloat f \<Rightarrow> Inl (ValidationError p NonIntegerCount)
      | PyInt n \<Rightarrow> if n < 3 then Inl (ValidationError p TooFewSides) else Inr (IntAttr n))"

fun validate_params ::
  "(string \<times> param_kind) list \<Rightarrow> pynum list \<Rightarrow> py_exception + (string \<times> attr) list" where
  "validate_params ((p, k) # ps) (v # vs) =
     (case validate_param p k v of
        Inl e \<Rightarrow> Inl e
      | Inr a \<Rightarrow> (case validate_params ps vs of
                   Inl e \<Rightarrow> Inl e
                 | Inr as \<Rightarrow> Inr ((p, a) # as)))"
| "validate_params [] [] = Inr []"
| "validate_params ps vs = Inl (ValidationError ''parameters'' WrongArity)"

text \<open>
  Modelled from the spec: the constructor call
  \<^verbatim>\<open>shape_class(*numeric_params, name=name)\<close> of a class that is not part of
  \<^verbatim>\<open>main.py\<close>; the editor always supplies the name.
\<close>

definition construct :: "shape_class \<Rightarrow> pynum list \<Rightarrow> string \<Rightarrow> py_exception + shape" where
  "construct c vs nm =
     (case validate_params (cls_params c) vs of
        Inl e \<Rightarrow> Inl e
      | Inr as \<Rightarrow> Inr \<lparr>ident = None, name = nm, type_name = cls_name c, attrs = as\<rparr>)"

text \<open>The derived quantities of a class, from the values of its attributes in order.\<close>

fun attr_val :: "attr \<Rightarrow> real" where
  "attr_val (RealAttr r) = r"
| "attr_val (IntAttr n) = real_of_int n"

definition derived :: "string \<Rightarrow> real list \<Rightarrow> (string \<times> real) list" where
  "derived t vs =
     (if t = ''Line'' then
        (case vs of [x1, y1, x2, y2] \<Rightarrow> [(''length'', sqrt ((x2 - x1)\<^sup>2 + (y2 - y1)\<^sup>2))] | _ \<Rightarrow> [])
      else if t = ''Circle'' then
        (case vs of [cx, cy, r] \<Rightarrow> [(''circumference'', 2 * pi * r), (''area'', pi * r\<^sup>2)] | _ \<Rightarrow> [])
      else if t = ''Square'' then
        (case vs of [x, y, a] \<Rightarrow> [(''perimeter'', 4 * a), (''area'', a\<^sup>2)] | _ \<Rightarrow> [])
      else if t = ''Rectangle'' then
        (case vs of [x, y, w, h] \<Rightarrow> [(''perimeter'', 2 * (w + h)), (''area'', w * h)] | _ \<Rightarrow> [])
      else if t = ''RegularPolygon'' then
        (case vs of
           [cx, cy, n, a] \<Rightarrow> [(''perimeter'', n * a), (''area'', (n * a\<^sup>2) / (4 * tan (pi / n)))]
         | _ \<Rightarrow> [])
      else if t = ''Parallelepiped'' then
        (case vs of
           [x, y, z, w, h, d] \<Rightarrow>
             [(''surface_area'', 2 * (w * h + w * d + h * d)), (''volume'', w * h * d)]
         | _ \<Rightarrow> [])
      else if t = ''Tetrahedron'' then
        (case vs of
           [x, y, z, e] \<Rightarrow> [(''surface_area'', sqrt 3 * e\<^sup>2), (''volume'', e ^ 3 / (6 * sqrt 2))]
         | _ \<Rightarrow> [])
      else [])"

datatype info_value = NoneValue | IntValue int | StrValue string | NumValue real

fun attr_info :: "attr \<Rightarrow> info_value" where
  "attr_info (RealAttr r) = NumValue r"
| "attr_info (IntAttr n) = IntValue n"

text \<open>
  Modelled from the spec: the method \<^verbatim>\<open>get_info()\<close> of the shape classes, which are
  not part of \<^verbatim>\<open>main.py\<close>. A method of a Python object may change the object, so the
  model returns the shape after the call next to the mapping; the spec makes the call
  a pure read, so the shape comes back as it was. The mapping holds \<^verbatim>\<open>id\<close>,
  \<^verbatim>\<open>name\<close>, \<^verbatim>\<open>type\<close>, every attribute and every derived quantity.
\<close>

definition get_info :: "shape \<Rightarrow> shape \<times> (string \<times> info_value) list" where
  "get_info s =
     (s, [(''id'', case ident s of None \<Rightarrow> NoneValue | Some i \<Rightarrow> IntValue i),
          (''name'', StrValue (name s)),
          (''type'', StrValue (type_name s))]
         @ map (\<lambda>(k, a). (k, attr_info a)) (attrs s)
         @ map (\<lambda>(k, r). (k, NumValue r)) (derived (type_name s) (map (attr_val \<circ> snd) (attrs s))))"

section \<open>The editor\<close>

text \<open>
  The class \<^verbatim>\<open>VectorEditor\<close>: a dictionary from identifier to shape, kept in
  insertion order, and the counter of the next identifier. Every method takes the
  editor and returns it changed, with what it printed (a constructor for each message
  of the source) and the exception that leaves the method, if any.
\<close>

record VectorEditor =
  shapes :: "(int \<times> shape) list"
  next_id :: int

record shape_info =
  shape_cls :: shape_class
  params :: "string list"
  help_text :: string

datatype message =
    Banner
  | Help_commands
  | Help_shape_type string
  | Err_no_shape_type
  | Err_unknown_shape_type string
  | Hint_help_shape_types
  | Err_not_enough_params string
  | Usage string
  | Err_params_not_numbers
  | Shape_created shape
  | Err_creating py_exception
  | List_empty
  | List_header
  | List_item int shape
  | Err_no_id
  | Err_id_not_number
  | Err_not_found int
  | Info_header int
  | Info_json "(string \<times> info_value) list"
  | Shape_deleted shape
  | Deleted_count nat
  | Exiting
  | Err_unknown_command string
  | Hint_help_commands
  | End_of_input
  | Err_exception py_exception

type_synonym outcome = "VectorEditor \<times> message list \<times> py_exception option"

definition VectorEditor_init :: VectorEditor where
  "VectorEditor_init = \<lparr>shapes = [], next_id = 1\<rparr>"

text \<open>The registry \<^verbatim>\<open>self.shape_types\<close>; the usage texts are kept without their
  Russian headings.\<close>

definition shape_types :: "(string \<times> shape_info) list" where
  "shape_types =
     [(''point'', \<lparr>shape_cls = Point, params = [''x'', ''y''],
                   help_text = ''create point x y [name]''\<rparr>),
      (''line'', \<lparr>shape_cls = Line, params = [''x1'', ''y1'', ''x2'', ''y2''],
                  help_text = ''create line x1 y1 x2 y2 [name]''\<rparr>),
      (''circle'', \<lparr>shape_cls = Circle, params = [''center_x'', ''center_y'', ''radius''],
                    help_text = ''create circle center_x center_y radius [name]''\<rparr>),
      (''square'', \<lparr>shape_cls = Square, params = [''x'', ''y'', ''side_length''],
                    help_text = ''create square x y side_length [name]''\<rparr>),
      (''rectangle'', \<lparr>shape_cls = Rectangle, params = [''x'', ''y'', ''width'', ''height''],
                       help_text = ''create rectangle x y width height [name]''\<rparr>),
      (''polygon'', \<lparr>shape_cls = RegularPolygon,
                     params = [''center_x'', ''center_y'', ''num_sides'', ''side_length''],
                     help_text = ''create polygon center_x center_y num_sides side_length [name]''\<rparr>),
      (''parallelepiped'', \<lparr>shape_cls = Parallelepiped,
                            params = [''x'', ''y'', ''z'', ''width'', ''height'', ''depth''],
                            help_text = ''create parallelepiped x y z width height depth [name]''\<rparr>),
      (''tetrahedron'', \<lparr>shape_cls = Tetrahedron, params = [''x'', ''y'', ''z'', ''edge_length''],
                         help_text = ''create tetrahedron x y z edge_length [name]''\<rparr>)]"

definition show_help :: "VectorEditor \<Rightarrow> string list \<Rightarrow> outcome" where
  "show_help ed args =
     (ed, Help_commands # map (\<lambda>(shape_type, info). Help_shape_type (help_text info)) shape_types, None)"

subsection \<open>Creating a shape\<close>

text \<open>
  One pass of the conversion loop of \<^verbatim>\<open>create_shape\<close>: a parameter of a polygon that
  equals \<^verbatim>\<open>params[2]\<close> goes through \<^verbatim>\<open>int\<close>, every other parameter through
  \<^verbatim>\<open>float\<close>. The comparison is evaluated for a polygon only, and reading
  \<^verbatim>\<open>params[2]\<close> of a shorter list raises \<^verbatim>\<open>IndexError\<close>.
\<close>

definition convert_param :: "string \<Rightarrow> string list \<Rightarrow> string \<Rightarrow> py_exception + pynum" where
  "convert_param shape_type ps param =
     (if shape_type = ''polygon'' then
        (if length ps \<le> 2 then Inl IndexError
         else if param = ps ! 2 then
           (case int_of_str param of Inl e \<Rightarrow> Inl e | Inr n \<Rightarrow> Inr (PyInt n))
         else (case float_of_str param of Inl e \<Rightarrow> Inl e | Inr f \<Rightarrow> Inr (PyFloat f)))
      else (case float_of_str param of Inl e \<Rightarrow> Inl e | Inr f \<Rightarrow> Inr (PyFloat f)))"

text \<open>The loop: the parameters still to convert, and \<^verbatim>\<open>numeric_params\<close> so far.\<close>

fun convert_params ::
  "string \<Rightarrow> string list \<Rightarrow> string list \<Rightarrow> pynum list \<Rightarrow> py_exception + pynum list" where
  "convert_params shape_type ps [] numeric_params = Inr numeric_params"
| "convert_params shape_type ps (param # rest) numeric_params =
     (case convert_param shape_type ps param of
        Inl e \<Rightarrow> Inl e
      | Inr v \<Rightarrow> convert_params shape_type ps rest (numeric_params @ [v]))"

text \<open>The name: the token after the parameters, or the capitalised type and the
  next identifier.\<close>

definition choose_name :: "VectorEditor \<Rightarrow> string \<Rightarrow> string list \<Rightarrow> string list \<Rightarrow> string" where
  "choose_name ed shape_type required_params args =
     (if length args > length required_params + 1 then args ! (length required_params + 1)
      else capitalize shape_type @ '' '' @ str_int (next_id ed))"

text \<open>
  The last block of \<^verbatim>\<open>create_shape\<close>: construct, assign the identifier, store,
  advance the counter. An exception of the constructor is caught and printed. The
  line printed on success shows the shape through its \<^verbatim>\<open>__str__\<close>, which belongs
  to the shape classes and is taken not to raise.
\<close>

definition construct_and_store :: "VectorEditor \<Rightarrow> shape_info \<Rightarrow> pynum list \<Rightarrow> string \<Rightarrow> outcome" where
  "construct_and_store ed info numeric_params nm =
     (case construct (shape_cls info) numeric_params nm of
        Inl e \<Rightarrow> if is_Exception e then (ed, [Err_creating e], None) else (ed, [], Some e)
      | Inr shape0 \<Rightarrow>
          let shape1 = shape0\<lparr>ident := Some (next_id ed)\<rparr>
          in (ed\<lparr>shapes := AList.update (next_id ed) shape1 (shapes ed),
                  next_id := next_id ed + 1\<rparr>,
              [Shape_created shape1], None))"

definition create_shape :: "VectorEditor \<Rightarrow> string list \<Rightarrow> outcome" where
  "create_shape ed args =
     (if args = [] then (ed, [Err_no_shape_type], None)
      else
        let shape_type = lower (hd args) in
        (case map_of shape_types shape_type of
           None \<Rightarrow> (ed, [Err_unknown_shape_type shape_type, Hint_help_shape_types], None)
         | Some info \<Rightarrow>
             (let required_params = params info in
              if int (length args) - 1 < int (length required_params)
              then (ed, [Err_not_enough_params shape_type, Usage (help_text info)], None)
              else
                (let ps = take (length required_params) (drop 1 args) in
                 (case convert_params shape_type ps ps [] of
                    Inl e \<Rightarrow>
                      (if e = ValueError then (ed, [Err_params_not_numbers], None)
                       else (ed, [], Some e))
                  | Inr numeric_params \<Rightarrow>
                      construct_and_store ed info numeric_params
                        (choose_name ed shape_type required_params args))))))"

subsection \<open>Listing, inspecting, deleting\<close>

definition list_shapes :: "VectorEditor \<Rightarrow> string list \<Rightarrow> outcome" where
  "list_shapes ed args =
     (if shapes ed = [] then (ed, [List_empty], None)
      else (ed, List_header # map (\<lambda>(shape_id, shape). List_item shape_id shape) (shapes ed), None))"

text \<open>
  \<^verbatim>\<open>show_shape_info\<close> calls \<^verbatim>\<open>get_info\<close> on the object the dictionary holds, so
  whatever the call does to the shape stays in the dictionary.
\<close>

definition show_shape_info :: "VectorEditor \<Rightarrow> string list \<Rightarrow> outcome" where
  "show_shape_info ed args =
     (if args = [] then (ed, [Err_no_id], None)
      else
        (case int_of_str (hd args) of
           Inl e \<Rightarrow> (if e = ValueError then (ed, [Err_id_not_number], None) else (ed, [], Some e))
         | Inr shape_id \<Rightarrow>
             (case map_of (shapes ed) shape_id of
                None \<Rightarrow> (ed, [Err_not_found shape_id], None)
              | Some shape \<Rightarrow>
                  (case get_info shape of
                     (shape', info) \<Rightarrow>
                       (ed\<lparr>shapes := AList.update shape_id shape' (shapes ed)\<rparr>,
                        [Info_header shape_id, Info_json info], None)))))"

definition delete_shape :: "VectorEditor \<Rightarrow> string list \<Rightarrow> outcome" where
  "delete_shape ed args =
     (if args = [] then (ed, [Err_no_id], None)
      else
        (case int_of_str (hd args) of
           Inl e \<Rightarrow> (if e = ValueError then (ed, [Err_id_not_number], None) else (ed, [], Some e))
         | Inr shape_id \<Rightarrow>
             (case map_of (shapes ed) shape_id of
                None \<Rightarrow> (ed, [Err_not_found shape_id], None)
              | Some shape \<Rightarrow>
                  (ed\<lparr>shapes := AList.delete shape_id (shapes ed)\<rparr>, [Shape_deleted shape], None))))"

definition clear_shapes :: "VectorEditor \<Rightarrow> string list \<Rightarrow> outcome" where
  "clear_shapes ed args = (ed\<lparr>shapes := []\<rparr>, [Deleted_count (length (shapes ed))], None)"

definition exit_editor :: "VectorEditor \<Rightarrow> string list \<Rightarrow> outcome" where
  "exit_editor ed args = (ed, [Exiting], Some (SystemExit 0))"

subsection \<open>The command loop\<close>

definition commands :: "(string \<times> (VectorEditor \<Rightarrow> string list \<Rightarrow> outcome)) list" where
  "commands =
     [(''help'', show_help), (''create'', create_shape), (''list'', list_shapes),
      (''info'', show_shape_info), (''delete'', delete_shape), (''clear'', clear_shapes),
      (''exit'', exit_editor)]"

definition process_command :: "VectorEditor \<Rightarrow> string \<Rightarrow> outcome" where
  "process_command ed command_line =
     (let parts = split (strip command_line) in
      if parts = [] then (ed, [], None)
      else
        (let command = lower (hd parts); args = tl parts in
         (case map_of commands command of
            Some handler \<Rightarrow> handler ed args
          | None \<Rightarrow> (ed, [Err_unknown_command command, Hint_help_commands], None))))"

text \<open>
  The loop of \<^verbatim>\<open>run\<close> over the lines that \<^verbatim>\<open>input\<close> delivers; the end of the
  list is the end of input. \<^verbatim>\<open>SystemExit\<close> ends the session, any other exception
  is printed and the loop goes on.
\<close>

fun run_loop :: "VectorEditor \<Rightarrow> string list \<Rightarrow> VectorEditor \<times> message list" where
  "run_loop ed [] = (ed, [End_of_input])"
| "run_loop ed (command_line # rest) =
     (case process_command ed command_line of
        (ed', out, None) \<Rightarrow>
          (case run_loop ed' rest of (ed'', out') \<Rightarrow> (ed'', out @ out'))
      | (ed', out, Some e) \<Rightarrow>
          (if is_Exception e
           then (case run_loop ed' rest of (ed'', out') \<Rightarrow> (ed'', out @ Err_exception e # out'))
           else (ed', out)))"

definition run :: "string list \<Rightarrow> VectorEditor \<times> message list" where
  "run input_lines =
     (case run_loop VectorEditor_init input_lines of (ed, out) \<Rightarrow> (ed, Banner # out))"

section \<open>Predicates used to state the properties\<close>

text \<open>What the spec asks of a value, by the kind of the parameter it is given for.\<close>

fun acceptable :: "param_kind \<Rightarrow> pynum \<Rightarrow> bool" where
  "acceptable Coordinate v = (finite_value v \<noteq> None)"
| "acceptable Size v = (finite_value v \<noteq> None \<and> \<not> nonpositive v)"
| "acceptable SideCount (PyInt n) = (3 \<le> n)"
| "acceptable SideCount (PyFloat f) = False"

text \<open>The identifiers of the shapes a sequence of printed lines reports as created.\<close>

fun created_id :: "message \<Rightarrow> int option" where
  "created_id (Shape_created s) = ident s"
| "created_id m = None"

definition created_ids :: "message list \<Rightarrow> int list" where
  "created_ids out = List.map_filter created_id out"

text \<open>The dictionary is well formed: its keys are distinct, every stored shape carries
  its key as identifier, and every key is below the counter.\<close>

definition stored_ok :: "VectorEditor \<Rightarrow> bool" where
  "stored_ok ed =
     (distinct (map fst (shapes ed))
      \<and> list_all (\<lambda>(k, s). ident s = Some k \<and> k < next_id ed) (shapes ed))"

text \<open>One method call keeps the dictionary well formed, and either leaves the counter
  and creates nothing, or creates one shape under the counter's value and advances
  the counter by one.\<close>

definition step_ok :: "VectorEditor \<Rightarrow> outcome \<Rightarrow> bool" where
  "step_ok ed r =
     (case r of (ed', out, x) \<Rightarrow>
        (\<not> stored_ok ed \<or> stored_ok ed')
        \<and> ((next_id ed' = next_id ed \<and> created_ids out = [])
           \<or> (next_id ed' = next_id ed + 1 \<and> created_ids out = [next_id ed])))"

text \<open>
  A token is a number for the conversion the loop of \<^verbatim>\<open>create_shape\<close> applies to it,
  stated with the builtins alone: \<^verbatim>\<open>int\<close> for a token of a polygon that equals the
  num_sides token, \<^verbatim>\<open>float\<close> for every other token; and the value it converts to.
\<close>

definition converts :: "string \<Rightarrow> string list \<Rightarrow> string \<Rightarrow> bool" where
  "converts shape_type ps p =
     (if shape_type = ''polygon'' \<and> p = ps ! 2 then int_of_str p \<noteq> Inl ValueError
      else float_of_str p \<noteq> Inl ValueError)"

definition converted :: "string \<Rightarrow> string list \<Rightarrow> string \<Rightarrow> pynum" where
  "converted shape_type ps p =
     (if shape_type = ''polygon'' \<and> p = ps ! 2 then PyInt (projr (int_of_str p))
      else PyFloat (projr (float_of_str p)))"

section \<open>Evaluation and auxiliary facts\<close>

lemmas builtin_defs = isspace_def isdigit_def digit_val_def char_lower_def char_upper_def
  lower_def strip_def split_def str_int_def digits_nat_def sign_split_def signed_digits_def
  int_of_str_def mantissa_def scale10_def decimal_def float_of_str_def

lemmas class_defs = Point_def Line_def Circle_def Square_def Rectangle_def RegularPolygon_def
  Parallelepiped_def Tetrahedron_def shape_classes_def construct_def

lemmas editor_defs = shape_types_def convert_param_def choose_name_def construct_and_store_def
  create_shape_def VectorEditor_init_def list_shapes_def show_shape_info_def delete_shape_def
  clear_shapes_def exit_editor_def show_help_def commands_def process_command_def run_def Let_def

lemma int_of_str_cases: "int_of_str s = Inl ValueError \<or> (\<exists>k. int_of_str s = Inr k)"
  by (simp add: int_of_str_def split: option.splits)

lemma float_of_str_cases: "float_of_str s = Inl ValueError \<or> (\<exists>f. float_of_str s = Inr f)"
  by (auto simp: float_of_str_def split: option.splits prod.splits)

lemma get_info_pure: "fst (get_info s) = s"
  by (simp add: get_info_def)

section \<open>Failed construction leaves the editor untouched\<close>

text \<open>
  Claim C1. For every create request, if the shape constructor raises an exception then
  the editor's state is unchanged: nothing is added to the shapes collection and
  \<^verbatim>\<open>next_id\<close> is not incremented. The request is one that reaches the constructor:
  the type is known, there are enough tokens, and the tokens convert to
  \<^verbatim>\<open>numeric_params\<close>.
\<close>

theorem create_shape_constructor_raises:
  assumes "args \<noteq> []"
    and "map_of shape_types (lower (hd args)) = Some info"
    and "length (params info) < length args"
    and "ps = take (length (params info)) (drop 1 args)"
    and "convert_params (lower (hd args)) ps ps [] = Inr numeric_params"
    and "construct (shape_cls info) numeric_params
           (choose_name ed (lower (hd args)) (params info) args) = Inl e"
  shows "fst (create_shape ed args) = ed"
  using assms by (simp add: create_shape_def construct_and_store_def)

theorem create_shape_constructor_raises_witness:
  "construct Circle [PyFloat (Fin 0), PyFloat (Fin 0), PyFloat (Fin (- 1))] ''Circle 1''
     = Inl (ValidationError ''radius'' NonPositive)
   \<and> fst (create_shape VectorEditor_init [''circle'', ''0'', ''0'', ''-1'']) = VectorEditor_init"
proof -
  let ?args = "[''circle'', ''0'', ''0'', ''-1'']"
  let ?info = "\<lparr>shape_cls = Circle, params = [''center_x'', ''center_y'', ''radius''],
                 help_text = ''create circle center_x center_y radius [name]''\<rparr>"
  let ?nums = "[PyFloat (Fin 0), PyFloat (Fin 0), PyFloat (Fin (- 1))]"
  have a: "?args \<noteq> []" by simp
  have b: "map_of shape_types (lower (hd ?args)) = Some ?info"
    by (simp add: shape_types_def builtin_defs)
  have c: "length (params ?info) < length ?args" by simp
  have d: "[''0'', ''0'', ''-1''] = take (length (params ?info)) (drop 1 ?args)" by simp
  have e: "convert_params (lower (hd ?args)) [''0'', ''0'', ''-1''] [''0'', ''0'', ''-1''] [] = Inr ?nums"
    by (simp add: convert_param_def builtin_defs)
  have f: "construct (shape_cls ?info) ?nums
             (choose_name VectorEditor_init (lower (hd ?args)) (params ?info) ?args)
           = Inl (ValidationError ''radius'' NonPositive)"
    by (simp add: class_defs)
  have g: "choose_name VectorEditor_init (lower (hd ?args)) (params ?info) ?args = ''Circle 1''"
    by (simp add: choose_name_def VectorEditor_init_def builtin_defs)
  from create_shape_constructor_raises [OF a b c d e f] f g show ?thesis by simp
qed

section \<open>Deleting a shape\<close>

text \<open>
  Claim C7. For every state of the editor, \<^verbatim>\<open>delete_shape\<close> with the id of a stored
  shape removes exactly that entry from the shapes collection and leaves every other
  stored shape and \<^verbatim>\<open>next_id\<close> unchanged; with a non-numeric token, with an id that
  is not in the collection, or with no token at all, it leaves the whole state unchanged.
\<close>

theorem delete_shape_frame:
  "(int_of_str tok = Inr k \<and> map_of (shapes ed) k = Some s \<longrightarrow>
      delete_shape ed (tok # rest)
        = (ed\<lparr>shapes := filter (\<lambda>entry. fst entry \<noteq> k) (shapes ed)\<rparr>, [Shape_deleted s], None)
      \<and> map_of (shapes (fst (delete_shape ed (tok # rest)))) = (map_of (shapes ed))(k := None)
      \<and> next_id (fst (delete_shape ed (tok # rest))) = next_id ed
      \<and> (distinct (map fst (shapes ed)) \<longrightarrow>
           length (shapes (fst (delete_shape ed (tok # rest)))) + 1 = length (shapes ed)))
   \<and> (int_of_str tok = Inl ValueError \<or> (int_of_str tok = Inr k \<and> map_of (shapes ed) k = None) \<longrightarrow>
        fst (delete_shape ed (tok # rest)) = ed)
   \<and> fst (delete_shape ed []) = ed"
proof -
  have del: "AList.delete k al = filter (\<lambda>entry. fst entry \<noteq> k) al" for al :: "(int \<times> shape) list"
    by (induction al) (auto simp: AList.delete_eq)
  have len: "length (filter (\<lambda>entry. fst entry \<noteq> k) al) + 1 = length al"
    if "distinct (map fst al)" and "map_of al k = Some s" for al :: "(int \<times> shape) list"
    using that
  proof (induction al)
    case Nil
    then show ?case by simp
  next
    case (Cons a al)
    show ?case
    proof (cases "fst a = k")
      case True
      with Cons.prems have "k \<notin> fst ` set al" by auto
      then have "filter (\<lambda>entry. fst entry \<noteq> k) al = al"
        by (auto simp: filter_id_conv)
      with True show ?thesis by simp
    next
      case False
      with Cons show ?thesis by (cases a) auto
    qed
  qed
  have map: "map_of (filter (\<lambda>entry. fst entry \<noteq> k) al) = (map_of al)(k := None)"
    for al :: "(int \<times> shape) list"
    using AList.delete_conv' [of k al] by (simp add: del)
  have found: "delete_shape ed (tok # rest)
        = (ed\<lparr>shapes := filter (\<lambda>entry. fst entry \<noteq> k) (shapes ed)\<rparr>, [Shape_deleted s], None)"
    if "int_of_str tok = Inr k" and "map_of (shapes ed) k = Some s"
    using that by (simp add: delete_shape_def del)
  have count: "length (shapes (fst (delete_shape ed (tok # rest)))) + 1 = length (shapes ed)"
    if "int_of_str tok = Inr k" and "map_of (shapes ed) k = Some s"
      and "distinct (map fst (shapes ed))"
    using found [OF that(1,2)] len [OF that(3,2)] by simp
  have missing: "fst (delete_shape ed (tok # rest)) = ed"
    if "int_of_str tok = Inl ValueError \<or> (int_of_str tok = Inr k \<and> map_of (shapes ed) k = None)"
    using that by (auto simp: delete_shape_def)
  have none: "fst (delete_shape ed []) = ed"
    by (simp add: delete_shape_def)
  have lookup: "map_of (shapes (fst (delete_shape ed (tok # rest)))) = (map_of (shapes ed))(k := None)"
    if "int_of_str tok = Inr k" and "map_of (shapes ed) k = Some s"
    using found [OF that] by (simp add: map)
  have counter: "next_id (fst (delete_shape ed (tok # rest))) = next_id ed"
    if "int_of_str tok = Inr k" and "map_of (shapes ed) k = Some s"
    using found [OF that] by simp
  show ?thesis
    using found lookup counter count missing none by blast
qed

theorem delete_shape_frame_witness:
  "delete_shape \<lparr>shapes = [(1, \<lparr>ident = Some 1, name = ''a'', type_name = ''Point'', attrs = []\<rparr>),
                            (2, \<lparr>ident = Some 2, name = ''b'', type_name = ''Point'', attrs = []\<rparr>)],
                  next_id = 3\<rparr> [''1'']
     = (\<lparr>shapes = [(2, \<lparr>ident = Some 2, name = ''b'', type_name = ''Point'', attrs = []\<rparr>)],
          next_id = 3\<rparr>,
        [Shape_deleted \<lparr>ident = Some 1, name = ''a'', type_name = ''Point'', attrs = []\<rparr>], None)
   \<and> fst (delete_shape VectorEditor_init [''x'']) = VectorEditor_init
   \<and> fst (delete_shape VectorEditor_init [''7'']) = VectorEditor_init"
proof -
  let ?a = "\<lparr>ident = Some 1, name = ''a'', type_name = ''Point'', attrs = []\<rparr>"
  let ?b = "\<lparr>ident = Some 2, name = ''b'', type_name = ''Point'', attrs = []\<rparr>"
  let ?ed = "\<lparr>shapes = [(1, ?a), (2, ?b)], next_id = 3\<rparr>"
  have one: "int_of_str ''1'' = Inr 1" by (simp add: builtin_defs)
  have x: "int_of_str ''x'' = Inl ValueError" by (simp add: builtin_defs)
  have seven: "int_of_str ''7'' = Inr 7" by (simp add: builtin_defs)
  have "delete_shape ?ed [''1'']
          = (?ed\<lparr>shapes := filter (\<lambda>entry. fst entry \<noteq> 1) (shapes ?ed)\<rparr>, [Shape_deleted ?a], None)"
    using delete_shape_frame [of "''1''" 1 ?ed ?a "[]"] one by simp
  moreover have "fst (delete_shape VectorEditor_init [''x'']) = VectorEditor_init"
    using delete_shape_frame [of "''x''" 0 VectorEditor_init ?a "[]"] x by simp
  moreover have "fst (delete_shape VectorEditor_init [''7'']) = VectorEditor_init"
    using delete_shape_frame [of "''7''" 7 VectorEditor_init ?a "[]"] seven
    by (simp add: VectorEditor_init_def)
  ultimately show ?thesis by simp
qed

section \<open>Inspecting a shape\<close>

text \<open>
  Claim C8. For every stored shape, requesting its info is a pure read:
  \<^verbatim>\<open>show_shape_info\<close> leaves the shapes collection and \<^verbatim>\<open>next_id\<close> unchanged, and two
  consecutive calls of \<^verbatim>\<open>get_info()\<close> on the same shape yield identical mappings.
\<close>

theorem show_shape_info_pure_read:
  "fst (show_shape_info ed args) = ed
   \<and> fst (get_info s) = s
   \<and> snd (get_info (fst (get_info s))) = snd (get_info s)
   \<and> (int_of_str tok = Inr k \<and> map_of (shapes ed) k = Some s \<longrightarrow>
        show_shape_info ed (tok # rest) = (ed, [Info_header k, Info_json (snd (get_info s))], None))"
proof -
  have upd: "ed\<lparr>shapes := AList.update k s (shapes ed)\<rparr> = ed" if "map_of (shapes ed) k = Some s" for k s
    using that by (simp add: AList.update_triv)
  have "fst (show_shape_info ed args) = ed"
    by (auto simp: show_shape_info_def get_info_pure upd split: sum.splits option.splits prod.splits
             dest: arg_cong [where f = fst])
  moreover have "int_of_str tok = Inr k \<and> map_of (shapes ed) k = Some s \<longrightarrow>
        show_shape_info ed (tok # rest) = (ed, [Info_header k, Info_json (snd (get_info s))], None)"
    by (auto simp: show_shape_info_def upd get_info_pure split: prod.splits dest: arg_cong [where f = fst] arg_cong [where f = snd])
  ultimately show ?thesis by (simp add: get_info_pure)
qed

theorem show_shape_info_pure_read_witness:
  "show_shape_info
     \<lparr>shapes = [(1, \<lparr>ident = Some 1, name = ''Rectangle 1'', type_name = ''Rectangle'',
                        attrs = [(''x'', RealAttr 0), (''y'', RealAttr 0),
                                 (''width'', RealAttr 3), (''height'', RealAttr 4)]\<rparr>)],
        next_id = 2\<rparr> [''1'']
   = (\<lparr>shapes = [(1, \<lparr>ident = Some 1, name = ''Rectangle 1'', type_name = ''Rectangle'',
                          attrs = [(''x'', RealAttr 0), (''y'', RealAttr 0),
                                   (''width'', RealAttr 3), (''height'', RealAttr 4)]\<rparr>)],
          next_id = 2\<rparr>,
      [Info_header 1,
       Info_json [(''id'', IntValue 1), (''name'', StrValue ''Rectangle 1''),
                  (''type'', StrValue ''Rectangle''),
                  (''x'', NumValue 0), (''y'', NumValue 0),
                  (''width'', NumValue 3), (''height'', NumValue 4),
                  (''perimeter'', NumValue 14), (''area'', NumValue 12)]],
      None)"
proof -
  let ?r = "\<lparr>ident = Some 1, name = ''Rectangle 1'', type_name = ''Rectangle'',
              attrs = [(''x'', RealAttr 0), (''y'', RealAttr 0),
                       (''width'', RealAttr 3), (''height'', RealAttr 4)]\<rparr>"
  let ?ed = "\<lparr>shapes = [(1, ?r)], next_id = 2\<rparr>"
  have one: "int_of_str ''1'' = Inr 1" by (simp add: builtin_defs)
  have stored: "map_of (shapes ?ed) 1 = Some ?r" by simp
  have "show_shape_info ?ed [''1''] = (?ed, [Info_header 1, Info_json (snd (get_info ?r))], None)"
    using show_shape_info_pure_read [of ?ed "[''1'']" ?r "''1''" 1 "[]"] one stored by blast
  then show ?thesis by (simp add: get_info_def derived_def)
qed

section \<open>Validation in the constructors\<close>

lemma validate_param_error:
  "validate_param p k v = Inl e \<Longrightarrow> \<exists>why. e = ValidationError p why \<and> why \<noteq> WrongArity"
  by (cases k) (auto split: if_splits option.splits pynum.splits)

lemma validate_params_error:
  "validate_params ps vs = Inl e \<Longrightarrow> \<exists>p why. e = ValidationError p why"
  by (induction ps vs arbitrary: e rule: validate_params.induct)
     (auto split: sum.splits dest: validate_param_error)

lemma validate_params_arity:
  "length vs = length ps \<Longrightarrow> validate_params ps vs \<noteq> Inl (ValidationError p WrongArity)"
proof (induction ps vs rule: validate_params.induct)
  case (1 q k ps v vs)
  then show ?case
    by (auto split: sum.splits dest: validate_param_error)
qed simp_all

lemma validate_param_nonpositive:
  "nonpositive v \<Longrightarrow> validate_param p Size v = Inl (ValidationError p NonPositive)"
  by simp

lemma validate_params_nonpositive:
  "length vs = length ps \<Longrightarrow> i < length ps \<Longrightarrow> snd (ps ! i) = Size \<Longrightarrow> nonpositive (vs ! i)
     \<Longrightarrow> \<exists>e. validate_params ps vs = Inl e"
proof (induction ps vs arbitrary: i rule: validate_params.induct)
  case (1 q k ps v vs)
  show ?case
  proof (cases i)
    case 0
    with 1 show ?thesis by simp
  next
    case (Suc j)
    show ?thesis
    proof (cases "validate_param q k v")
      case (Inl e)
      then show ?thesis by simp
    next
      case (Inr b)
      with 1 Suc have "\<exists>e. validate_params ps vs = Inl e" by simp
      with Inr show ?thesis by auto
    qed
  qed
qed simp_all

lemma validate_param_acceptable:
  "acceptable k v \<Longrightarrow> \<exists>a. validate_param p k v = Inr a"
  by (cases k; cases v) auto

lemma validate_params_acceptable:
  "length vs = length ps \<Longrightarrow> \<forall>i<length ps. acceptable (snd (ps ! i)) (vs ! i)
     \<Longrightarrow> \<exists>as. validate_params ps vs = Inr as"
proof (induction ps vs rule: validate_params.induct)
  case (1 q k ps v vs)
  from 1(3) have "acceptable k v" by force
  then obtain a where a: "validate_param q k v = Inr a"
    using validate_param_acceptable by blast
  from 1(3) have "\<forall>i<length ps. acceptable (snd (ps ! i)) (vs ! i)" by force
  with 1 a obtain as where "validate_params ps vs = Inr as" by auto
  with a show ?case by simp
qed simp_all

text \<open>
  Claim C4. For every size-bearing shape type, constructing with a zero or negative size
  parameter (radius, side_length, width, height, depth, edge_length) fails with
  \<^verbatim>\<open>ValidationError\<close>, while constructing with any finite coordinate value (zero and
  negative included), the sizes being positive and the side count at least 3, succeeds.
  The last two parts name the size and the coordinate parameters of the eight classes.
\<close>

theorem construct_validation:
  "(length vs = length (cls_params c)
      \<and> (\<exists>i<length vs. snd (cls_params c ! i) = Size \<and> nonpositive (vs ! i))
      \<longrightarrow> (\<exists>p why. construct c vs nm = Inl (ValidationError p why)))
   \<and> (length vs = length (cls_params c)
      \<and> (\<forall>i<length vs. acceptable (snd (cls_params c ! i)) (vs ! i))
      \<longrightarrow> (\<exists>s. construct c vs nm = Inr s))
   \<and> remdups (concat (map (\<lambda>c. map fst (filter (\<lambda>pk. snd pk = Size) (cls_params c))) shape_classes))
       = [''radius'', ''side_length'', ''width'', ''height'', ''depth'', ''edge_length'']
   \<and> remdups (concat (map (\<lambda>c. map fst (filter (\<lambda>pk. snd pk = Coordinate) (cls_params c))) shape_classes))
       = [''x1'', ''y1'', ''x2'', ''y2'', ''center_x'', ''center_y'', ''x'', ''y'', ''z'']"
proof -
  have fails: "\<exists>p why. construct c vs nm = Inl (ValidationError p why)"
    if "length vs = length (cls_params c)"
      and "\<exists>i<length vs. snd (cls_params c ! i) = Size \<and> nonpositive (vs ! i)"
  proof -
    from that obtain e where e: "validate_params (cls_params c) vs = Inl e"
      using validate_params_nonpositive by metis
    then obtain p why where "e = ValidationError p why"
      using validate_params_error by blast
    with e show ?thesis by (simp add: construct_def)
  qed
  have succeeds: "\<exists>s. construct c vs nm = Inr s"
    if "length vs = length (cls_params c)"
      and "\<forall>i<length vs. acceptable (snd (cls_params c ! i)) (vs ! i)"
  proof -
    from that obtain as where "validate_params (cls_params c) vs = Inr as"
      using validate_params_acceptable by metis
    then show ?thesis by (simp add: construct_def)
  qed
  have sizes: "remdups (concat (map (\<lambda>c. map fst (filter (\<lambda>pk. snd pk = Size) (cls_params c))) shape_classes))
       = [''radius'', ''side_length'', ''width'', ''height'', ''depth'', ''edge_length'']"
    by (simp add: class_defs)
  have coords: "remdups (concat (map (\<lambda>c. map fst (filter (\<lambda>pk. snd pk = Coordinate) (cls_params c))) shape_classes))
       = [''x1'', ''y1'', ''x2'', ''y2'', ''center_x'', ''center_y'', ''x'', ''y'', ''z'']"
    by (simp add: class_defs)
  from fails succeeds sizes coords show ?thesis by blast
qed

theorem construct_validation_witness:
  "(\<exists>p why. construct Circle [PyFloat (Fin (- 3)), PyInt (- 4), PyFloat (Fin 0)] ''c''
              = Inl (ValidationError p why))
   \<and> (\<exists>s. construct Circle [PyFloat (Fin (- 3)), PyInt (- 4), PyFloat (Fin 2)] ''c'' = Inr s)
   \<and> construct Circle [PyFloat (Fin (- 3)), PyInt (- 4), PyFloat (Fin 0)] ''c''
       = Inl (ValidationError ''radius'' NonPositive)
   \<and> construct Circle [PyFloat (Fin (- 3)), PyInt (- 4), PyFloat (Fin 2)] ''c''
       = Inr \<lparr>ident = None, name = ''c'', type_name = ''Circle'',
              attrs = [(''center_x'', RealAttr (- 3)), (''center_y'', RealAttr (- 4)),
                       (''radius'', RealAttr 2)]\<rparr>"
proof -
  let ?bad = "[PyFloat (Fin (- 3)), PyInt (- 4), PyFloat (Fin 0)]"
  let ?good = "[PyFloat (Fin (- 3)), PyInt (- 4), PyFloat (Fin 2)]"
  have len: "length ?bad = length (cls_params Circle)" "length ?good = length (cls_params Circle)"
    by (simp_all add: Circle_def)
  have "snd (cls_params Circle ! 2) = Size \<and> nonpositive (?bad ! 2)"
    by (simp add: Circle_def)
  then have bad: "\<exists>i<length ?bad. snd (cls_params Circle ! i) = Size \<and> nonpositive (?bad ! i)"
    by (intro exI [of _ 2]) simp
  have good: "\<forall>i<length ?good. acceptable (snd (cls_params Circle ! i)) (?good ! i)"
    by (simp add: Circle_def less_Suc_eq numeral_3_eq_3)
  have "\<exists>p why. construct Circle ?bad ''c'' = Inl (ValidationError p why)"
    using construct_validation [of ?bad Circle "''c''"] len(1) bad by blast
  moreover have "\<exists>s. construct Circle ?good ''c'' = Inr s"
    using construct_validation [of ?good Circle "''c''"] len(2) good by blast
  ultimately show ?thesis by (simp add: class_defs)
qed

section \<open>The conversion loop and the registry\<close>

lemma convert_params_Inr:
  "convert_params st ps xs acc = Inr nums \<Longrightarrow>
     nums = acc @ map (\<lambda>p. projr (convert_param st ps p)) xs
     \<and> (\<forall>p\<in>set xs. \<exists>v. convert_param st ps p = Inr v)"
proof (induction xs arbitrary: acc)
  case Nil
  then show ?case by simp
next
  case (Cons x xs)
  from Cons.prems obtain v where v: "convert_param st ps x = Inr v"
    and rest: "convert_params st ps xs (acc @ [v]) = Inr nums"
    by (auto split: sum.splits)
  from Cons.IH [OF rest] v show ?case by simp
qed

lemma convert_params_all:
  "\<forall>p\<in>set xs. \<exists>v. convert_param st ps p = Inr v \<Longrightarrow>
     convert_params st ps xs acc = Inr (acc @ map (\<lambda>p. projr (convert_param st ps p)) xs)"
  by (induction xs arbitrary: acc) auto

lemma convert_params_length:
  "convert_params st ps xs [] = Inr nums \<Longrightarrow> length nums = length xs"
  by (drule convert_params_Inr) simp

lemma registry_params:
  "map_of shape_types k = Some info \<Longrightarrow> params info = map fst (cls_params (shape_cls info))"
  by (auto simp: shape_types_def class_defs split: if_splits)

lemma registry_polygon:
  "map_of shape_types ''polygon'' = Some info \<Longrightarrow>
     info = \<lparr>shape_cls = RegularPolygon,
             params = [''center_x'', ''center_y'', ''num_sides'', ''side_length''],
             help_text = ''create polygon center_x center_y num_sides side_length [name]''\<rparr>"
  by (simp add: shape_types_def)

lemma construct_and_store_output:
  "fst (snd (construct_and_store ed info nums nm)) = [Err_creating e] \<Longrightarrow>
     construct (shape_cls info) nums nm = Inl e"
  by (auto simp: construct_and_store_def Let_def split: sum.splits if_splits)

section \<open>What the conversion hands to the constructor\<close>

lemma convert_param_float:
  "st \<noteq> ''polygon'' \<or> (2 < length ps \<and> p \<noteq> ps ! 2) \<Longrightarrow> float_of_str p \<noteq> Inl ValueError \<Longrightarrow>
     convert_param st ps p = Inr (PyFloat (projr (float_of_str p)))"
  using float_of_str_cases [of p] by (auto simp: convert_param_def)

lemma convert_param_int:
  "2 < length ps \<Longrightarrow> int_of_str (ps ! 2) \<noteq> Inl ValueError \<Longrightarrow>
     convert_param ''polygon'' ps (ps ! 2) = Inr (PyInt (projr (int_of_str (ps ! 2))))"
  using int_of_str_cases [of "ps ! 2"] by (auto simp: convert_param_def)

lemma create_shape_converted:
  assumes known: "map_of shape_types (lower t) = Some info"
    and enough: "length (params info) \<le> length rest"
    and ps: "ps = take (length (params info)) rest"
    and numeric: "\<forall>p\<in>set ps. if lower t = ''polygon'' \<and> p = ps ! 2
                              then int_of_str p \<noteq> Inl ValueError
                              else float_of_str p \<noteq> Inl ValueError"
  shows "create_shape ed (t # rest)
           = construct_and_store ed info
               (map (\<lambda>p. if lower t = ''polygon'' \<and> p = ps ! 2
                          then PyInt (projr (int_of_str p))
                          else PyFloat (projr (float_of_str p))) ps)
               (choose_name ed (lower t) (params info) (t # rest))"
proof -
  let ?f = "\<lambda>p. if lower t = ''polygon'' \<and> p = ps ! 2
                 then PyInt (projr (int_of_str p))
                 else PyFloat (projr (float_of_str p))"
  have len: "lower t = ''polygon'' \<Longrightarrow> 2 < length ps"
    using known enough ps registry_polygon [of info] by auto
  have each: "convert_param (lower t) ps p = Inr (?f p)" if "p \<in> set ps" for p
  proof (cases "lower t = ''polygon'' \<and> p = ps ! 2")
    case True
    with numeric that have "int_of_str (ps ! 2) \<noteq> Inl ValueError" by auto
    with True len show ?thesis using convert_param_int [of ps] by simp
  next
    case False
    with numeric that have "float_of_str p \<noteq> Inl ValueError" by auto
    moreover from False len have "lower t \<noteq> ''polygon'' \<or> (2 < length ps \<and> p \<noteq> ps ! 2)" by auto
    ultimately show ?thesis using False convert_param_float [of "lower t" ps p] by simp
  qed
  then have "\<forall>p\<in>set ps. \<exists>v. convert_param (lower t) ps p = Inr v" by blast
  then have "convert_params (lower t) ps ps []
               = Inr ([] @ map (\<lambda>p. projr (convert_param (lower t) ps p)) ps)"
    by (rule convert_params_all)
  moreover have "map (\<lambda>p. projr (convert_param (lower t) ps p)) ps = map ?f ps"
    using each by (intro map_cong) simp_all
  ultimately have "convert_params (lower t) ps ps [] = Inr (map ?f ps)" by simp
  with known enough ps show ?thesis by (simp add: create_shape_def Let_def)
qed

section \<open>The integer conversion for polygons\<close>



section \<open>Every command keeps the identifiers in order\<close>

lemma created_ids_none:
  "\<forall>m\<in>set out. created_id m = None \<Longrightarrow> created_ids out = []"
  by (induction out) (simp_all add: created_ids_def map_filter_simps)

lemma created_ids_append:
  "created_ids (out @ out') = created_ids out @ created_ids out'"
  by (simp add: created_ids_def map_filter_def)

lemma created_ids_exception:
  "created_ids (Err_exception e # out) = created_ids out"
  by (simp add: created_ids_def map_filter_simps)

lemma update_fresh:
  "k \<notin> fst ` set al \<Longrightarrow> AList.update k v al = al @ [(k, v)]"
  by (induction al) auto

lemma stored_ok_create:
  assumes "stored_ok ed" and "ident s = Some (next_id ed)"
  shows "stored_ok (ed\<lparr>shapes := AList.update (next_id ed) s (shapes ed),
                        next_id := next_id ed + 1\<rparr>)"
proof -
  from assms(1) have below: "\<forall>(k, s')\<in>set (shapes ed). ident s' = Some k \<and> k < next_id ed"
    and dist: "distinct (map fst (shapes ed))"
    by (simp_all add: stored_ok_def list_all_iff)
  from below have fresh: "next_id ed \<notin> fst ` set (shapes ed)" by force
  then have upd: "AList.update (next_id ed) s (shapes ed) = shapes ed @ [(next_id ed, s)]"
    by (rule update_fresh)
  from below have "\<forall>(k, s')\<in>set (shapes ed). ident s' = Some k \<and> k < next_id ed + 1" by force
  with dist fresh assms(2) show ?thesis
    by (simp add: stored_ok_def upd list_all_iff)
qed

lemma stored_ok_delete:
  assumes "stored_ok ed"
  shows "stored_ok (ed\<lparr>shapes := AList.delete k (shapes ed)\<rparr>)"
proof -
  have "set (AList.delete k (shapes ed)) \<subseteq> set (shapes ed)"
    by (auto simp: AList.delete_eq)
  with assms show ?thesis
    by (auto simp: stored_ok_def list_all_iff AList.distinct_delete)
qed

lemma show_shape_info_state: "fst (show_shape_info ed args) = ed"
proof -
  have upd: "ed\<lparr>shapes := AList.update k s (shapes ed)\<rparr> = ed" if "map_of (shapes ed) k = Some s" for k s
    using that by (simp add: AList.update_triv)
  show ?thesis
    by (auto simp: show_shape_info_def get_info_pure upd split: sum.splits option.splits prod.splits
             dest: arg_cong [where f = fst])
qed

lemma show_shape_info_created: "created_ids (fst (snd (show_shape_info ed args))) = []"
  by (auto simp: show_shape_info_def created_ids_def map_filter_simps
           split: sum.splits option.splits prod.splits)

lemma step_ok_create: "step_ok ed (create_shape ed args)"
proof -
  have cs: "step_ok ed (construct_and_store ed info nums nm)" for info nums nm
    by (auto simp: step_ok_def construct_and_store_def Let_def created_ids_def map_filter_simps
             intro: stored_ok_create split: sum.splits)
  have same: "step_ok ed (ed, out, x)" if "\<forall>m\<in>set out. created_id m = None" for out x
    using created_ids_none [OF that] by (simp add: step_ok_def)
  show ?thesis
    by (auto simp: create_shape_def Let_def cs same split: option.splits sum.splits)
qed

lemma step_ok_delete: "step_ok ed (delete_shape ed args)"
  by (auto simp: step_ok_def delete_shape_def created_ids_def map_filter_simps
           intro: stored_ok_delete split: sum.splits option.splits)

lemma step_ok_info: "step_ok ed (show_shape_info ed args)"
  using show_shape_info_state [of ed args] show_shape_info_created [of ed args]
  by (cases "show_shape_info ed args") (simp add: step_ok_def)

lemma step_ok_clear: "step_ok ed (clear_shapes ed args)"
  by (simp add: step_ok_def clear_shapes_def stored_ok_def created_ids_def map_filter_simps)

lemma step_ok_list: "step_ok ed (list_shapes ed args)"
proof -
  have "\<forall>m\<in>set (List_header # map (\<lambda>(shape_id, shape). List_item shape_id shape) (shapes ed)).
          created_id m = None"
    by auto
  then have "created_ids (List_header # map (\<lambda>(shape_id, shape). List_item shape_id shape) (shapes ed)) = []"
    by (rule created_ids_none)
  then show ?thesis
    by (simp add: step_ok_def list_shapes_def created_ids_def map_filter_simps)
qed

lemma step_ok_help: "step_ok ed (show_help ed args)"
proof -
  have "\<forall>m\<in>set (Help_commands # map (\<lambda>(shape_type, info). Help_shape_type (help_text info)) shape_types).
          created_id m = None"
    by auto
  then have "created_ids (Help_commands # map (\<lambda>(shape_type, info). Help_shape_type (help_text info)) shape_types) = []"
    by (rule created_ids_none)
  then show ?thesis
    by (simp add: step_ok_def show_help_def)
qed

lemma step_ok_exit: "step_ok ed (exit_editor ed args)"
  by (simp add: step_ok_def exit_editor_def created_ids_def map_filter_simps)

lemma step_ok_process_command: "step_ok ed (process_command ed command_line)"
proof -
  have known: "step_ok ed (handler ed args)" if "map_of commands c = Some handler" for c handler args
    using that step_ok_create step_ok_delete step_ok_info step_ok_clear step_ok_list step_ok_help
      step_ok_exit
    by (auto simp: commands_def split: if_splits)
  have unknown: "step_ok ed (ed, out, None)" if "\<forall>m\<in>set out. created_id m = None" for out
    using created_ids_none [OF that] by (simp add: step_ok_def)
  show ?thesis
    by (auto simp: process_command_def Let_def known unknown split: option.splits)
qed

lemma run_loop_inv:
  "run_loop ed input_lines = (ed', out) \<Longrightarrow>
     (stored_ok ed \<longrightarrow> stored_ok ed')
     \<and> next_id ed \<le> next_id ed'
     \<and> sorted_wrt (<) (created_ids out)
     \<and> (\<forall>i\<in>set (created_ids out). next_id ed \<le> i \<and> i < next_id ed')"
proof (induction input_lines arbitrary: ed ed' out)
  case Nil
  then show ?case by (auto simp: created_ids_def map_filter_simps)
next
  case (Cons command_line rest)
  obtain ed1 out1 x where pc: "process_command ed command_line = (ed1, out1, x)"
    by (cases "process_command ed command_line") auto
  from step_ok_process_command [of ed command_line] pc
  have ok: "stored_ok ed \<longrightarrow> stored_ok ed1"
    and ids: "(next_id ed1 = next_id ed \<and> created_ids out1 = [])
              \<or> (next_id ed1 = next_id ed + 1 \<and> created_ids out1 = [next_id ed])"
    by (auto simp: step_ok_def)
  show ?case
  proof (cases "\<exists>e. x = Some e \<and> \<not> is_Exception e")
    case True
    with Cons.prems pc have "ed' = ed1" "out = out1" by auto
    with ok ids show ?thesis by auto
  next
    case False
    obtain ed2 out2 where rl: "run_loop ed1 rest = (ed2, out2)"
      by (cases "run_loop ed1 rest") auto
    from False Cons.prems pc rl
    have res: "ed' = ed2" "created_ids out = created_ids out1 @ created_ids out2"
      by (auto simp: created_ids_append created_ids_exception split: option.splits)
    from Cons.IH [OF rl]
    have ih: "stored_ok ed1 \<longrightarrow> stored_ok ed2" "next_id ed1 \<le> next_id ed2"
      "sorted_wrt (<) (created_ids out2)"
      "\<forall>i\<in>set (created_ids out2). next_id ed1 \<le> i \<and> i < next_id ed2"
      by auto
    from ids show ?thesis
    proof
      assume "next_id ed1 = next_id ed \<and> created_ids out1 = []"
      with ok ih res show ?thesis by auto
    next
      assume "next_id ed1 = next_id ed + 1 \<and> created_ids out1 = [next_id ed]"
      with ok ih res show ?thesis by (auto simp: sorted_wrt_append)
    qed
  qed
qed


lemma create_shape_created:
  assumes "create_shape ed args = (ed', out, x)" and "Shape_created s \<in> set out"
  shows "ident s = Some (next_id ed) \<and> next_id ed' = next_id ed + 1
         \<and> shapes ed' = AList.update (next_id ed) s (shapes ed)"
proof -
  have cs: "ident s = Some (next_id ed) \<and> next_id ed' = next_id ed + 1
            \<and> shapes ed' = AList.update (next_id ed) s (shapes ed)"
    if "construct_and_store ed info nums nm = (ed', out, x)" for info nums nm
    using that assms(2)
    by (auto simp: construct_and_store_def Let_def split: sum.splits if_splits)
  from assms show ?thesis
    by (auto simp: create_shape_def Let_def split: option.splits sum.splits if_splits dest: cs)
qed

lemma stored_ok_run: "stored_ok (fst (run input_lines))"
proof -
  obtain ed out where rl: "run_loop VectorEditor_init input_lines = (ed, out)"
    by (cases "run_loop VectorEditor_init input_lines") auto
  have "stored_ok VectorEditor_init"
    by (simp add: stored_ok_def VectorEditor_init_def)
  with run_loop_inv [OF rl] have "stored_ok ed" by simp
  with rl show ?thesis by (simp add: run_def)
qed

section \<open>Identifiers are assigned by the editor and unique\<close>

text \<open>
  Claim C2. Every successfully created shape receives its integer id from the editor
  after construction: its id is the editor's current \<^verbatim>\<open>next_id\<close>, which is then
  incremented, and the shape is stored under that id. In the state a session has
  reached after any sequence of command lines, every stored shape carries its key as
  id and no two stored shapes carry the same id.
\<close>

theorem shape_ids_assigned_and_unique:
  "(create_shape ed args = (ed', out, x) \<and> Shape_created s \<in> set out \<longrightarrow>
      ident s = Some (next_id ed) \<and> next_id ed' = next_id ed + 1
      \<and> map_of (shapes ed') (next_id ed) = Some s)
   \<and> map (ident \<circ> snd) (shapes (fst (run input_lines)))
       = map (Some \<circ> fst) (shapes (fst (run input_lines)))
   \<and> distinct (map (ident \<circ> snd) (shapes (fst (run input_lines))))"
proof -
  have created: "ident s = Some (next_id ed) \<and> next_id ed' = next_id ed + 1
      \<and> map_of (shapes ed') (next_id ed) = Some s"
    if "create_shape ed args = (ed', out, x)" and "Shape_created s \<in> set out"
    using create_shape_created [OF that] by (simp add: AList.update_conv')
  let ?al = "shapes (fst (run input_lines))"
  from stored_ok_run [of input_lines]
  have dist: "distinct (map fst ?al)" and keys: "\<forall>(k, s')\<in>set ?al. ident s' = Some k"
    by (auto simp: stored_ok_def list_all_iff)
  from keys have eq: "map (ident \<circ> snd) ?al = map (Some \<circ> fst) ?al"
    by (intro map_cong) auto
  from dist have "distinct (map Some (map fst ?al))"
    by (simp only: distinct_map) simp
  then have "distinct (map (ident \<circ> snd) ?al)" by (simp add: eq)
  with created eq show ?thesis by blast
qed

theorem shape_ids_assigned_and_unique_witness:
  "create_shape VectorEditor_init [''point'', ''1'', ''2'']
     = (\<lparr>shapes = [(1, \<lparr>ident = Some 1, name = ''Point 1'', type_name = ''Point'',
                           attrs = [(''x'', RealAttr 1), (''y'', RealAttr 2)]\<rparr>)],
          next_id = 2\<rparr>,
        [Shape_created \<lparr>ident = Some 1, name = ''Point 1'', type_name = ''Point'',
                         attrs = [(''x'', RealAttr 1), (''y'', RealAttr 2)]\<rparr>],
        None)
   \<and> map (ident \<circ> snd) (shapes (fst (run [''create point 1 2'', ''create circle 0 0 1 c''])))
       = [Some 1, Some 2]
   \<and> distinct (map (ident \<circ> snd)
                 (shapes (fst (run [''create point 1 2'', ''create circle 0 0 1 c'']))))"
proof -
  let ?s = "\<lparr>ident = Some 1, name = ''Point 1'', type_name = ''Point'',
              attrs = [(''x'', RealAttr 1), (''y'', RealAttr 2)]\<rparr>"
  let ?lines = "[''create point 1 2'', ''create circle 0 0 1 c'']"
  have result: "create_shape VectorEditor_init [''point'', ''1'', ''2'']
                  = (\<lparr>shapes = [(1, ?s)], next_id = 2\<rparr>, [Shape_created ?s], None)"
    by (simp add: editor_defs class_defs builtin_defs)
  have keys: "map (Some \<circ> fst) (shapes (fst (run ?lines))) = [Some 1, Some 2]"
    by (simp add: editor_defs class_defs builtin_defs)
  from shape_ids_assigned_and_unique
         [of VectorEditor_init "[''point'', ''1'', ''2'']" "\<lparr>shapes = [(1, ?s)], next_id = 2\<rparr>"
             "[Shape_created ?s]" None ?s ?lines]
    result keys
  show ?thesis by simp
qed

section \<open>Identifiers are never reused\<close>

text \<open>
  Claim C9. Shape ids are never reused within a session: \<^verbatim>\<open>next_id\<close> never decreases,
  \<^verbatim>\<open>delete_shape\<close> and \<^verbatim>\<open>clear_shapes\<close> leave it as it is, and the ids of the
  shapes created in the course of any sequence of command lines, from any state, are
  strictly increasing, all at least the counter at the start and below the counter at
  the end. So an id once assigned is not assigned again, whatever was deleted or
  cleared in between.
\<close>

theorem shape_ids_never_reused:
  "(run_loop ed input_lines = (ed', out) \<longrightarrow>
      next_id ed \<le> next_id ed'
      \<and> sorted_wrt (<) (created_ids out)
      \<and> (\<forall>i\<in>set (created_ids out). next_id ed \<le> i \<and> i < next_id ed'))
   \<and> next_id (fst (delete_shape ed args)) = next_id ed
   \<and> next_id (fst (clear_shapes ed args)) = next_id ed
   \<and> next_id ed \<le> next_id (fst (process_command ed command_line))"
proof -
  have session: "next_id ed \<le> next_id ed'
      \<and> sorted_wrt (<) (created_ids out)
      \<and> (\<forall>i\<in>set (created_ids out). next_id ed \<le> i \<and> i < next_id ed')"
    if "run_loop ed input_lines = (ed', out)"
    using run_loop_inv [OF that] by blast
  have del: "next_id (fst (delete_shape ed args)) = next_id ed"
    by (auto simp: delete_shape_def split: sum.splits option.splits)
  have clr: "next_id (fst (clear_shapes ed args)) = next_id ed"
    by (simp add: clear_shapes_def)
  have cmd: "next_id ed \<le> next_id (fst (process_command ed command_line))"
    using step_ok_process_command [of ed command_line]
    by (cases "process_command ed command_line") (auto simp: step_ok_def)
  from session del clr cmd show ?thesis by blast
qed

theorem shape_ids_never_reused_witness:
  "created_ids (snd (run_loop VectorEditor_init
       [''create point 1 2'', ''delete 1'', ''create point 3 4'', ''clear'',
        ''create circle 0 0 1''])) = [1, 2, 3]
   \<and> next_id (fst (run_loop VectorEditor_init
       [''create point 1 2'', ''delete 1'', ''create point 3 4'', ''clear'',
        ''create circle 0 0 1''])) = 4
   \<and> map fst (shapes (fst (run_loop VectorEditor_init
       [''create point 1 2'', ''delete 1'', ''create point 3 4'', ''clear'',
        ''create circle 0 0 1'']))) = [3]
   \<and> sorted_wrt (<) (created_ids (snd (run_loop VectorEditor_init
       [''create point 1 2'', ''delete 1'', ''create point 3 4'', ''clear'',
        ''create circle 0 0 1''])))"
proof -
  let ?lines = "[''create point 1 2'', ''delete 1'', ''create point 3 4'', ''clear'',
                 ''create circle 0 0 1'']"
  let ?r = "run_loop VectorEditor_init ?lines"
  have ids: "created_ids (snd ?r) = [1, 2, 3]"
    by (simp add: editor_defs class_defs builtin_defs created_ids_def map_filter_simps)
  have final: "next_id (fst ?r) = 4" "map fst (shapes (fst ?r)) = [3]"
    by (simp_all add: editor_defs class_defs builtin_defs)
  have "?r = (fst ?r, snd ?r)" by simp
  with shape_ids_never_reused [of VectorEditor_init ?lines "fst ?r" "snd ?r"]
  have "sorted_wrt (<) (created_ids (snd ?r))" by blast
  with ids final show ?thesis by blast
qed

section \<open>A wrong number of parameters\<close>

lemma validate_params_length:
  "length vs \<noteq> length ps \<Longrightarrow> \<exists>e. validate_params ps vs = Inl e"
proof (induction ps vs rule: validate_params.induct)
  case (1 q k ps v vs)
  then show ?case by (cases "validate_param q k v") (auto split: sum.splits)
qed simp_all

lemma validate_params_length_acceptable:
  "length vs \<noteq> length ps \<Longrightarrow>
   \<forall>i<min (length vs) (length ps). acceptable (snd (ps ! i)) (vs ! i) \<Longrightarrow>
     validate_params ps vs = Inl (ValidationError ''parameters'' WrongArity)"
proof (induction ps vs rule: validate_params.induct)
  case (1 q k ps v vs)
  from 1(3) have "acceptable k v" by force
  then obtain a where a: "validate_param q k v = Inr a"
    using validate_param_acceptable by blast
  from 1(3) have "\<forall>i<min (length vs) (length ps). acceptable (snd (ps ! i)) (vs ! i)" by force
  with 1 a have "validate_params ps vs = Inl (ValidationError ''parameters'' WrongArity)" by simp
  with a show ?case by simp
qed simp_all

text \<open>
  Claim C6. A construction attempt with the wrong number of parameters fails with a
  \<^verbatim>\<open>ValidationError\<close> raised during construction, carrying which parameter failed and
  why: whatever the values, the constructor returns a \<^verbatim>\<open>ValidationError\<close> with a
  parameter and a reason, and when the values that are there are acceptable the error
  names the parameter list and the wrong number as the reason.
\<close>

theorem construct_wrong_arity:
  "length vs \<noteq> length (cls_params c) \<longrightarrow>
     (\<exists>p why. construct c vs nm = Inl (ValidationError p why))
     \<and> ((\<forall>i<min (length vs) (length (cls_params c)). acceptable (snd (cls_params c ! i)) (vs ! i))
          \<longrightarrow> construct c vs nm = Inl (ValidationError ''parameters'' WrongArity))"
proof (intro impI conjI)
  assume len: "length vs \<noteq> length (cls_params c)"
  then obtain e where e: "validate_params (cls_params c) vs = Inl e"
    using validate_params_length by blast
  then obtain p why where "e = ValidationError p why"
    using validate_params_error by blast
  with e show "\<exists>p why. construct c vs nm = Inl (ValidationError p why)"
    by (simp add: construct_def)
  assume "\<forall>i<min (length vs) (length (cls_params c)). acceptable (snd (cls_params c ! i)) (vs ! i)"
  with len have "validate_params (cls_params c) vs = Inl (ValidationError ''parameters'' WrongArity)"
    by (rule validate_params_length_acceptable)
  then show "construct c vs nm = Inl (ValidationError ''parameters'' WrongArity)"
    by (simp add: construct_def)
qed

theorem construct_wrong_arity_witness:
  "construct Circle [PyFloat (Fin 0), PyFloat (Fin 0)] ''c''
     = Inl (ValidationError ''parameters'' WrongArity)
   \<and> (\<exists>p why. construct Circle [PyFloat (Fin 0), PyFloat (Fin 0)] ''c''
                = Inl (ValidationError p why))
   \<and> (\<exists>p why. construct Point [PyFloat (Fin 1), PyFloat (Fin 2), PyFloat (Fin 3)] ''p''
                = Inl (ValidationError p why))"
proof -
  let ?two = "[PyFloat (Fin 0), PyFloat (Fin 0)]"
  let ?three = "[PyFloat (Fin 1), PyFloat (Fin 2), PyFloat (Fin 3)]"
  have few: "length ?two \<noteq> length (cls_params Circle)" by (simp add: Circle_def)
  have many: "length ?three \<noteq> length (cls_params Point)" by (simp add: Point_def)
  have ok: "\<forall>i<min (length ?two) (length (cls_params Circle)).
              acceptable (snd (cls_params Circle ! i)) (?two ! i)"
    by (simp add: Circle_def less_Suc_eq numeral_2_eq_2)
  from construct_wrong_arity [of ?two Circle "''c''"] few ok
  have "construct Circle ?two ''c'' = Inl (ValidationError ''parameters'' WrongArity)"
    and "\<exists>p why. construct Circle ?two ''c'' = Inl (ValidationError p why)"
    by blast+
  moreover from construct_wrong_arity [of ?three Point "''p''"] many
  have "\<exists>p why. construct Point ?three ''p'' = Inl (ValidationError p why)" by blast
  ultimately show ?thesis by blast
qed

section \<open>Which validation the editor does itself\<close>

lemma construct_error:
  "construct c vs nm = Inl e \<Longrightarrow> \<exists>p why. e = ValidationError p why"
  by (auto simp: construct_def split: sum.splits dest: validate_params_error)

lemma convert_param_error:
  "convert_param st ps p = Inl e \<Longrightarrow> st \<noteq> ''polygon'' \<or> 2 < length ps \<Longrightarrow> e = ValueError"
  using int_of_str_cases [of p] float_of_str_cases [of p]
  by (auto simp: convert_param_def split: if_splits sum.splits)

lemma convert_params_Inl:
  "convert_params st ps xs acc = Inl e \<Longrightarrow> \<exists>p\<in>set xs. convert_param st ps p = Inl e"
  by (induction xs arbitrary: acc) (auto split: sum.splits)

lemma convert_params_fails:
  "p \<in> set xs \<Longrightarrow> convert_param st ps p = Inl e \<Longrightarrow> \<exists>e'. convert_params st ps xs acc = Inl e'"
  by (induction xs arbitrary: acc) (auto split: sum.splits)

lemma convert_param_converts:
  "st \<noteq> ''polygon'' \<or> 2 < length ps \<Longrightarrow>
     (\<not> converts st ps p \<longrightarrow> convert_param st ps p = Inl ValueError)
     \<and> (converts st ps p \<longrightarrow> convert_param st ps p = Inr (converted st ps p))"
  using int_of_str_cases [of p] float_of_str_cases [of p]
  by (auto simp: convert_param_def converts_def converted_def)

lemma validate_params_count:
  "validate_params ps vs = Inl (ValidationError p NonIntegerCount) \<Longrightarrow>
     \<exists>i. i < length ps \<and> i < length vs \<and> snd (ps ! i) = SideCount \<and> (\<exists>f. vs ! i = PyFloat f)"
proof (induction ps vs rule: validate_params.induct)
  case (1 q k ps v vs)
  show ?case
  proof (cases "validate_param q k v")
    case (Inl e)
    with 1(2) have "validate_param q k v = Inl (ValidationError p NonIntegerCount)" by simp
    then have "k = SideCount \<and> (\<exists>f. v = PyFloat f)"
      by (cases k) (auto split: if_splits option.splits pynum.splits)
    then show ?thesis by (intro exI [of _ 0]) simp
  next
    case (Inr a)
    with 1(2) have "validate_params ps vs = Inl (ValidationError p NonIntegerCount)"
      by (auto split: sum.splits)
    with 1(1) [OF Inr] obtain i where "i < length ps \<and> i < length vs \<and> snd (ps ! i) = SideCount
        \<and> (\<exists>f. vs ! i = PyFloat f)" by blast
    then show ?thesis by (intro exI [of _ "Suc i"]) simp
  qed
qed simp_all

lemma registry_side_count:
  "map_of shape_types k = Some info \<Longrightarrow> i < length (cls_params (shape_cls info)) \<Longrightarrow>
   snd (cls_params (shape_cls info) ! i) = SideCount \<Longrightarrow> k = ''polygon'' \<and> i = 2"
  by (auto simp: shape_types_def class_defs nth_Cons split: if_splits nat.splits)


text \<open>
  Claim C3, as the editor has it. For every create request with a known type and enough
  tokens, the editor itself refuses the request exactly when some token is not a number
  for the conversion the loop applies to it. So the integrality of the side count is
  enforced by the editor: a num_sides token that \<^verbatim>\<open>int\<close> does not accept ends in the
  parameters-must-be-numbers line, the constructor is not called, and no request ends
  in the constructor's error for a non-integer count. Positivity is not checked by the
  editor: when every token converts, the constructor is called with the converted
  values whatever their sign, the request ends as the construction ends, and a zero or
  negative size is rejected there with \<^verbatim>\<open>ValidationError\<close>.
\<close>

theorem create_shape_validation_split:
  assumes known: "map_of shape_types (lower t) = Some info"
    and enough: "length (params info) \<le> length rest"
    and ps: "ps = take (length (params info)) rest"
  shows "((\<exists>p\<in>set ps. \<not> converts (lower t) ps p) \<longrightarrow>
            create_shape ed (t # rest) = (ed, [Err_params_not_numbers], None))
     \<and> (lower t = ''polygon'' \<and> int_of_str (ps ! 2) = Inl ValueError \<longrightarrow>
            create_shape ed (t # rest) = (ed, [Err_params_not_numbers], None))
     \<and> ((\<forall>p\<in>set ps. converts (lower t) ps p) \<longrightarrow>
            create_shape ed (t # rest)
              = (case construct (shape_cls info) (map (converted (lower t) ps) ps)
                        (choose_name ed (lower t) (params info) (t # rest)) of
                   Inl e \<Rightarrow> (ed, [Err_creating e], None)
                 | Inr shape0 \<Rightarrow>
                     (ed\<lparr>shapes := AList.update (next_id ed)
                                       (shape0\<lparr>ident := Some (next_id ed)\<rparr>) (shapes ed),
                         next_id := next_id ed + 1\<rparr>,
                      [Shape_created (shape0\<lparr>ident := Some (next_id ed)\<rparr>)], None)))
     \<and> ((\<forall>p\<in>set ps. converts (lower t) ps p)
          \<and> (\<exists>i<length ps. snd (cls_params (shape_cls info) ! i) = Size
                            \<and> nonpositive (converted (lower t) ps (ps ! i))) \<longrightarrow>
            (\<exists>p why. create_shape ed (t # rest)
                        = (ed, [Err_creating (ValidationError p why)], None)))
     \<and> (\<forall>p. fst (snd (create_shape ed (t # rest)))
               \<noteq> [Err_creating (ValidationError p NonIntegerCount)])"
proof -
  let ?st = "lower t"
  let ?nm = "choose_name ed ?st (params info) (t # rest)"
  let ?nums = "map (converted ?st ps) ps"
  let ?built = "case construct (shape_cls info) ?nums ?nm of
                   Inl e \<Rightarrow> (ed, [Err_creating e], None)
                 | Inr shape0 \<Rightarrow>
                     (ed\<lparr>shapes := AList.update (next_id ed)
                                       (shape0\<lparr>ident := Some (next_id ed)\<rparr>) (shapes ed),
                         next_id := next_id ed + 1\<rparr>,
                      [Shape_created (shape0\<lparr>ident := Some (next_id ed)\<rparr>)], None)"
  have len: "?st \<noteq> ''polygon'' \<or> 2 < length ps"
    using known enough ps registry_polygon [of info] by auto
  have lens: "length ps = length (cls_params (shape_cls info))"
    using enough ps registry_params [OF known] by simp
  have refused: "create_shape ed (t # rest) = (ed, [Err_params_not_numbers], None)"
    if "\<exists>p\<in>set ps. \<not> converts ?st ps p"
  proof -
    from that obtain p where p: "p \<in> set ps" "convert_param ?st ps p = Inl ValueError"
      using convert_param_converts [OF len] by blast
    then obtain e where e: "convert_params ?st ps ps [] = Inl e"
      using convert_params_fails by blast
    then obtain q where "convert_param ?st ps q = Inl e"
      using convert_params_Inl by blast
    then have "e = ValueError" using len by (rule convert_param_error)
    with e known enough ps show ?thesis by (simp add: create_shape_def Let_def)
  qed
  have no_int: "create_shape ed (t # rest) = (ed, [Err_params_not_numbers], None)"
    if "?st = ''polygon'' \<and> int_of_str (ps ! 2) = Inl ValueError"
  proof -
    from that len have "ps ! 2 \<in> set ps" by simp
    moreover from that have "\<not> converts ?st ps (ps ! 2)" by (simp add: converts_def)
    ultimately show ?thesis using refused by blast
  qed
  have passed: "create_shape ed (t # rest) = ?built" if all: "\<forall>p\<in>set ps. converts ?st ps p"
  proof -
    have same: "(\<lambda>p. if ?st = ''polygon'' \<and> p = ps ! 2 then PyInt (projr (int_of_str p))
                       else PyFloat (projr (float_of_str p))) = converted ?st ps"
      by (rule ext) (simp add: converted_def)
    from all have "\<forall>p\<in>set ps. if ?st = ''polygon'' \<and> p = ps ! 2
                                 then int_of_str p \<noteq> Inl ValueError
                                 else float_of_str p \<noteq> Inl ValueError"
      by (simp add: converts_def)
    from create_shape_converted [OF known enough ps this, of ed]
    have "create_shape ed (t # rest) = construct_and_store ed info ?nums ?nm"
      by (simp only: same)
    also have "\<dots> = ?built"
      using construct_error [of "shape_cls info" ?nums ?nm]
      by (auto simp: construct_and_store_def Let_def split: sum.splits)
    finally show ?thesis .
  qed
  have size: "\<exists>p why. create_shape ed (t # rest) = (ed, [Err_creating (ValidationError p why)], None)"
    if all: "\<forall>p\<in>set ps. converts ?st ps p"
      and bad: "\<exists>i<length ps. snd (cls_params (shape_cls info) ! i) = Size
                               \<and> nonpositive (converted ?st ps (ps ! i))"
  proof -
    from bad obtain i where i: "i < length (cls_params (shape_cls info))"
      "snd (cls_params (shape_cls info) ! i) = Size" "nonpositive (?nums ! i)"
      using lens by auto
    have "length ?nums = length (cls_params (shape_cls info))" using lens by simp
    from validate_params_nonpositive [OF this i]
    obtain e where e: "validate_params (cls_params (shape_cls info)) ?nums = Inl e" by blast
    then obtain p why where "e = ValidationError p why"
      using validate_params_error by blast
    with e have "construct (shape_cls info) ?nums ?nm = Inl (ValidationError p why)"
      by (simp add: construct_def)
    with passed [OF all] show ?thesis by simp
  qed
  have count: "fst (snd (create_shape ed (t # rest))) \<noteq> [Err_creating (ValidationError p NonIntegerCount)]"
    for p
  proof (cases "\<forall>p\<in>set ps. converts ?st ps p")
    case False
    with refused show ?thesis by simp
  next
    case True
    have "construct (shape_cls info) ?nums ?nm \<noteq> Inl (ValidationError p NonIntegerCount)"
    proof
      assume "construct (shape_cls info) ?nums ?nm = Inl (ValidationError p NonIntegerCount)"
      then have "validate_params (cls_params (shape_cls info)) ?nums
                   = Inl (ValidationError p NonIntegerCount)"
        by (auto simp: construct_def split: sum.splits)
      from validate_params_count [OF this]
      obtain i f where i: "i < length (cls_params (shape_cls info))" "i < length ?nums"
        "snd (cls_params (shape_cls info) ! i) = SideCount" "?nums ! i = PyFloat f"
        by blast
      from registry_side_count [OF known i(1) i(3)] have "?st = ''polygon''" "i = 2" by simp_all
      with i(2,4) show False by (simp add: converted_def)
    qed
    with passed [OF True] show ?thesis by (auto split: sum.splits)
  qed
  from refused no_int passed size count show ?thesis by blast
qed

text \<open>
  A side count that is a number but not an integer is refused by the editor, with the
  line it prints for tokens that are not numbers; construction is not attempted.
\<close>

theorem create_shape_validation_split_counterexample:
  "create_shape VectorEditor_init [''polygon'', ''0'', ''0'', ''4.5'', ''1'']
     = (VectorEditor_init, [Err_params_not_numbers], None)
   \<and> float_of_str ''4.5'' = Inr (Fin (9 / 2))
   \<and> int_of_str ''4.5'' = Inl ValueError"
  by (simp add: editor_defs builtin_defs)

theorem create_shape_validation_split_witness:
  "create_shape VectorEditor_init [''polygon'', ''0'', ''0'', ''4.5'', ''1'']
     = (VectorEditor_init, [Err_params_not_numbers], None)
   \<and> (\<exists>p why. create_shape VectorEditor_init [''circle'', ''0'', ''0'', ''-5'']
                = (VectorEditor_init, [Err_creating (ValidationError p why)], None))
   \<and> create_shape VectorEditor_init [''circle'', ''0'', ''0'', ''-5'']
       = (VectorEditor_init, [Err_creating (ValidationError ''radius'' NonPositive)], None)"
proof -
  let ?poly = "\<lparr>shape_cls = RegularPolygon,
                 params = [''center_x'', ''center_y'', ''num_sides'', ''side_length''],
                 help_text = ''create polygon center_x center_y num_sides side_length [name]''\<rparr>"
  let ?circ = "\<lparr>shape_cls = Circle, params = [''center_x'', ''center_y'', ''radius''],
                 help_text = ''create circle center_x center_y radius [name]''\<rparr>"
  let ?pr = "[''0'', ''0'', ''4.5'', ''1'']"
  let ?cr = "[''0'', ''0'', ''-5'']"
  have lp: "lower ''polygon'' = ''polygon''" and lc: "lower ''circle'' = ''circle''"
    by (simp_all add: builtin_defs)
  have kp: "map_of shape_types (lower ''polygon'') = Some ?poly"
    and kc: "map_of shape_types (lower ''circle'') = Some ?circ"
    by (simp_all add: shape_types_def builtin_defs)
  have ep: "length (params ?poly) \<le> length ?pr" and ec: "length (params ?circ) \<le> length ?cr"
    by simp_all
  have pp: "?pr = take (length (params ?poly)) ?pr" and pc: "?cr = take (length (params ?circ)) ?cr"
    by simp_all
  have not_int: "lower ''polygon'' = ''polygon'' \<and> int_of_str (?pr ! 2) = Inl ValueError"
    by (simp add: builtin_defs)
  have all: "\<forall>p\<in>set ?cr. converts (lower ''circle'') ?cr p"
    by (simp add: converts_def builtin_defs)
  have "snd (cls_params (shape_cls ?circ) ! 2) = Size
          \<and> nonpositive (converted (lower ''circle'') ?cr (?cr ! 2))"
    by (simp add: converted_def Circle_def builtin_defs)
  then have bad: "\<exists>i<length ?cr. snd (cls_params (shape_cls ?circ) ! i) = Size
                    \<and> nonpositive (converted (lower ''circle'') ?cr (?cr ! i))"
    by (intro exI [of _ 2]) simp
  from create_shape_validation_split [OF kp ep pp, of VectorEditor_init] not_int
  have one: "create_shape VectorEditor_init (''polygon'' # ?pr)
               = (VectorEditor_init, [Err_params_not_numbers], None)"
    by blast
  from create_shape_validation_split [OF kc ec pc, of VectorEditor_init] all bad
  have two: "\<exists>p why. create_shape VectorEditor_init (''circle'' # ?cr)
                       = (VectorEditor_init, [Err_creating (ValidationError p why)], None)"
    by blast
  have three: "create_shape VectorEditor_init (''circle'' # ?cr)
       = (VectorEditor_init, [Err_creating (ValidationError ''radius'' NonPositive)], None)"
    by (simp add: editor_defs class_defs builtin_defs)
  from one two three show ?thesis by blast
qed

section \<open>The default name\<close>

lemma registry_names:
  "map_of shape_types k = Some info \<Longrightarrow>
     (k \<noteq> ''polygon'' \<longrightarrow> cls_name (shape_cls info) = capitalize k)
     \<and> (k = ''polygon'' \<longrightarrow> cls_name (shape_cls info) = ''RegularPolygon''
                              \<and> capitalize k = ''Polygon'')"
  by (auto simp: shape_types_def class_defs builtin_defs split: if_splits)

text \<open>
  Claim C5, as the editor has it. For every create request in which no display name
  token is supplied, the created shape's name is the shape type of the request (the
  registry key: the first token in lower case) capitalised, followed by a space and
  the shape's assigned id. For every type but \<^verbatim>\<open>polygon\<close> that is the type name of
  the variant; a polygon, whose variant is \<^verbatim>\<open>RegularPolygon\<close>, is named
  \<^verbatim>\<open>Polygon\<close> and its id.
\<close>

theorem create_shape_default_name:
  assumes known: "map_of shape_types (lower t) = Some info"
    and no_name: "length rest = length (params info)"
    and result: "create_shape ed (t # rest) = (ed', out, x)"
    and created: "Shape_created s \<in> set out"
  shows "ident s = Some (next_id ed)
     \<and> name s = capitalize (lower t) @ '' '' @ str_int (next_id ed)
     \<and> (lower t \<noteq> ''polygon'' \<longrightarrow> name s = type_name s @ '' '' @ str_int (next_id ed))
     \<and> (lower t = ''polygon'' \<longrightarrow> type_name s = ''RegularPolygon''
                                    \<and> name s = ''Polygon '' @ str_int (next_id ed))"
proof -
  let ?ps = "take (length (params info)) rest"
  let ?nm = "choose_name ed (lower t) (params info) (t # rest)"
  have nm: "?nm = capitalize (lower t) @ '' '' @ str_int (next_id ed)"
    using no_name by (simp add: choose_name_def)
  have main: "ident s = Some (next_id ed) \<and> name s = ?nm \<and> type_name s = cls_name (shape_cls info)"
  proof (cases "convert_params (lower t) ?ps ?ps []")
    case (Inl e)
    with known no_name result created show ?thesis
      by (auto simp: create_shape_def split: if_splits)
  next
    case (Inr nums)
    with known no_name result
    have cs: "construct_and_store ed info nums ?nm = (ed', out, x)"
      by (simp add: create_shape_def Let_def)
    show ?thesis
    proof (cases "construct (shape_cls info) nums ?nm")
      case (Inl e)
      with cs created show ?thesis
        by (auto simp: construct_and_store_def split: if_splits)
    next
      case (Inr shape0)
      then have "name shape0 = ?nm \<and> type_name shape0 = cls_name (shape_cls info)"
        by (auto simp: construct_def split: sum.splits)
      moreover from Inr cs created have "s = shape0\<lparr>ident := Some (next_id ed)\<rparr>"
        by (auto simp: construct_and_store_def Let_def)
      ultimately show ?thesis by simp
    qed
  qed
  from registry_names [OF known] main nm show ?thesis by auto
qed

text \<open>
  The default name of a polygon is not the type name of its variant followed by the id.
\<close>

theorem create_shape_default_name_counterexample:
  "create_shape VectorEditor_init [''polygon'', ''0'', ''0'', ''5'', ''2'']
     = (\<lparr>shapes = [(1, \<lparr>ident = Some 1, name = ''Polygon 1'', type_name = ''RegularPolygon'',
                           attrs = [(''center_x'', RealAttr 0), (''center_y'', RealAttr 0),
                                    (''num_sides'', IntAttr 5), (''side_length'', RealAttr 2)]\<rparr>)],
          next_id = 2\<rparr>,
        [Shape_created \<lparr>ident = Some 1, name = ''Polygon 1'', type_name = ''RegularPolygon'',
                         attrs = [(''center_x'', RealAttr 0), (''center_y'', RealAttr 0),
                                  (''num_sides'', IntAttr 5), (''side_length'', RealAttr 2)]\<rparr>],
        None)
   \<and> ''RegularPolygon'' @ '' '' @ str_int 1 = ''RegularPolygon 1''
   \<and> ''Polygon 1'' \<noteq> ''RegularPolygon'' @ '' '' @ str_int 1"
  by (simp add: editor_defs class_defs builtin_defs)

theorem create_shape_default_name_witness:
  "create_shape VectorEditor_init [''POLYGON'', ''0'', ''0'', ''5'', ''2'']
     = (\<lparr>shapes = [(1, \<lparr>ident = Some 1, name = ''Polygon 1'', type_name = ''RegularPolygon'',
                           attrs = [(''center_x'', RealAttr 0), (''center_y'', RealAttr 0),
                                    (''num_sides'', IntAttr 5), (''side_length'', RealAttr 2)]\<rparr>)],
          next_id = 2\<rparr>,
        [Shape_created \<lparr>ident = Some 1, name = ''Polygon 1'', type_name = ''RegularPolygon'',
                         attrs = [(''center_x'', RealAttr 0), (''center_y'', RealAttr 0),
                                  (''num_sides'', IntAttr 5), (''side_length'', RealAttr 2)]\<rparr>],
        None)
   \<and> ''Polygon '' @ str_int (next_id VectorEditor_init) = ''Polygon 1''
   \<and> create_shape VectorEditor_init [''circle'', ''0'', ''0'', ''1'']
     = (\<lparr>shapes = [(1, \<lparr>ident = Some 1, name = ''Circle 1'', type_name = ''Circle'',
                           attrs = [(''center_x'', RealAttr 0), (''center_y'', RealAttr 0),
                                    (''radius'', RealAttr 1)]\<rparr>)],
          next_id = 2\<rparr>,
        [Shape_created \<lparr>ident = Some 1, name = ''Circle 1'', type_name = ''Circle'',
                         attrs = [(''center_x'', RealAttr 0), (''center_y'', RealAttr 0),
                                  (''radius'', RealAttr 1)]\<rparr>],
        None)
   \<and> ''Circle'' @ '' '' @ str_int (next_id VectorEditor_init) = ''Circle 1''"
proof -
  let ?pinfo = "\<lparr>shape_cls = RegularPolygon,
                  params = [''center_x'', ''center_y'', ''num_sides'', ''side_length''],
                  help_text = ''create polygon center_x center_y num_sides side_length [name]''\<rparr>"
  let ?cinfo = "\<lparr>shape_cls = Circle, params = [''center_x'', ''center_y'', ''radius''],
                  help_text = ''create circle center_x center_y radius [name]''\<rparr>"
  let ?p = "\<lparr>ident = Some 1, name = ''Polygon 1'', type_name = ''RegularPolygon'',
              attrs = [(''center_x'', RealAttr 0), (''center_y'', RealAttr 0),
                       (''num_sides'', IntAttr 5), (''side_length'', RealAttr 2)]\<rparr>"
  let ?c = "\<lparr>ident = Some 1, name = ''Circle 1'', type_name = ''Circle'',
              attrs = [(''center_x'', RealAttr 0), (''center_y'', RealAttr 0),
                       (''radius'', RealAttr 1)]\<rparr>"
  let ?prest = "[''0'', ''0'', ''5'', ''2'']"
  let ?crest = "[''0'', ''0'', ''1'']"
  have lp: "lower ''POLYGON'' = ''polygon''" and lc: "lower ''circle'' = ''circle''"
    by (simp_all add: builtin_defs)
  have kp: "map_of shape_types (lower ''POLYGON'') = Some ?pinfo"
    and kc: "map_of shape_types (lower ''circle'') = Some ?cinfo"
    by (simp_all add: shape_types_def builtin_defs)
  have np: "length ?prest = length (params ?pinfo)" and nc: "length ?crest = length (params ?cinfo)"
    by simp_all
  have rp: "create_shape VectorEditor_init (''POLYGON'' # ?prest)
              = (\<lparr>shapes = [(1, ?p)], next_id = 2\<rparr>, [Shape_created ?p], None)"
    by (simp add: editor_defs class_defs builtin_defs)
  have rc: "create_shape VectorEditor_init (''circle'' # ?crest)
              = (\<lparr>shapes = [(1, ?c)], next_id = 2\<rparr>, [Shape_created ?c], None)"
    by (simp add: editor_defs class_defs builtin_defs)
  have cp: "Shape_created ?p \<in> set [Shape_created ?p]"
    and cc: "Shape_created ?c \<in> set [Shape_created ?c]"
    by simp_all
  from create_shape_default_name [OF kp np rp cp] lp
  have "name ?p = ''Polygon '' @ str_int (next_id VectorEditor_init)" by simp
  moreover from create_shape_default_name [OF kc nc rc cc] lc
  have "name ?c = type_name ?c @ '' '' @ str_int (next_id VectorEditor_init)" by simp
  ultimately show ?thesis using rp rc by simp
qed

end
